theory Spec2Isabelle
  imports Main
begin

section \<open>The remote file store and the local machine\<close>

text \<open>
  \<open>main.py\<close> wraps an authenticated Google Drive session (\<open>self.service\<close>).  Every
  method of \<open>GoogleDriveManager\<close> runs inside \<open>try: ... except Exception as e:\<close>, prints
  messages and talks to the remote service and to the local file system.  The model
  threads a \<open>state\<close> through every call: the remote store, the schedule of remote
  failures, the trace of remote calls made so far, the local files and the printed
  messages.  What the service and the operating system decide on their own (how a query
  text is read, page and chunk sizes, MIME guessing, export conversion, whether a path
  can be opened for writing) is collected in an immutable \<open>env\<close>.
\<close>

type_synonym bytes = string

text \<open>A record of the remote store, with the fields the client reads or filters on.\<close>

record drive_file =
  file_id :: string
  file_name :: string
  mimeType :: string
  parents :: "string list"
  trashed :: bool
  file_size :: "nat option"
  createdTime :: "string option"
  content :: bytes

text \<open>
  An element of \<open>results.get('files', [])\<close> as requested by
  \<open>fields="nextPageToken, files(id, name, mimeType, size, createdTime)"\<close>.
\<close>

record item =
  item_id :: string
  item_name :: string
  item_mimeType :: string
  item_size :: "nat option"
  item_createdTime :: "string option"

definition to_item :: "drive_file \<Rightarrow> item" where
  "to_item r = \<lparr>item_id = file_id r, item_name = file_name r, item_mimeType = mimeType r,
                item_size = file_size r, item_createdTime = createdTime r\<rparr>"

text \<open>The answer of \<open>files().get(fileId=...)\<close>: the default fields the client uses.\<close>

record metadata =
  meta_name :: string
  meta_mimeType :: string

datatype exn = HttpError string | OSError string | UnpicklingError string

fun str :: "exn \<Rightarrow> string" where
  "str (HttpError m) = m"
| "str (OSError m) = m"
| "str (UnpicklingError m) = m"

text \<open>The remote procedure calls the client issues, with their arguments.\<close>

datatype call =
    FilesList string
  | FilesGet string
  | ExportMedia string string
  | GetMedia string
  | FilesCreate string "string option" "string list option" "bytes option"

text \<open>One constructor per \<open>print\<close> of the source (the per-file block is one message).\<close>

datatype message =
    FolderNotFound string
  | NoFilesFound
  | FilesFound nat
  | Separator
  | FileListed item
  | ListError string
  | FindError string
  | Downloading string
  | MimeInfo string
  | DocsDetected string
  | DocsExported string
  | BinaryDetected
  | Progress nat nat
  | Downloaded string
  | DownloadError string
  | LocalNotFound string
  | Uploading string
  | Uploaded "string option"
  | UploadError string
  | FormatsHeader string
  | FormatLine string string
  | BinaryNoExport string
  | FormatsError string
  | FolderCreated string "string option"
  | CreateError string

record env =
  interp :: "string \<Rightarrow> (drive_file \<Rightarrow> bool) option"
  page_size :: nat
  chunk_size :: nat
  guess_mime :: "string \<Rightarrow> string"
  export_as :: "drive_file \<Rightarrow> string \<Rightarrow> bytes option"
  fresh_id :: "drive_file list \<Rightarrow> string"
  now :: string
  writable :: "string \<Rightarrow> bool"
  temp_path :: "string \<Rightarrow> string"

record state =
  store :: "drive_file list"
  faults :: "exn option list"
  calls :: "(call \<times> exn option) list"
  fs :: "string \<rightharpoonup> bytes"
  log :: "message list"

subsection \<open>Sequencing, exceptions and printing\<close>

type_synonym 'a run = "state \<Rightarrow> (exn + 'a) \<times> state"

definition ret :: "'a \<Rightarrow> 'a run" where
  "ret a s = (Inr a, s)"

definition raise :: "exn \<Rightarrow> 'a run" where
  "raise e s = (Inl e, s)"

definition andthen :: "'a run \<Rightarrow> ('a \<Rightarrow> 'b run) \<Rightarrow> 'b run" where
  "andthen m k s = (case m s of (Inl e, s') \<Rightarrow> (Inl e, s') | (Inr a, s') \<Rightarrow> k a s')"

definition print :: "message \<Rightarrow> unit run" where
  "print m s = (Inr (), s\<lparr>log := log s @ [m]\<rparr>)"

text \<open>\<open>try: body except Exception as e: print(msg e); return failure\<close>.\<close>

definition try_except :: "'a run \<Rightarrow> (string \<Rightarrow> message) \<Rightarrow> 'a \<Rightarrow> state \<Rightarrow> 'a \<times> state" where
  "try_except body msg failure s =
     (case body s of
        (Inl e, s') \<Rightarrow> (failure, s'\<lparr>log := log s' @ [msg (str e)]\<rparr>)
      | (Inr a, s') \<Rightarrow> (a, s'))"

text \<open>A method that catches everything itself, called from inside another \<open>try\<close>.\<close>

definition total :: "(state \<Rightarrow> 'a \<times> state) \<Rightarrow> 'a run" where
  "total f s = (case f s of (a, s') \<Rightarrow> (Inr a, s'))"

text \<open>Python truthiness of an optional string: \<open>None\<close> and \<open>''\<close> are false.\<close>

fun truthy :: "string option \<Rightarrow> bool" where
  "truthy None = False"
| "truthy (Some v) = (v \<noteq> [])"

text \<open>\<open>x or y\<close> for an optional string \<open>x\<close>.\<close>

fun or_else :: "string option \<Rightarrow> string \<Rightarrow> string" where
  "or_else None y = y"
| "or_else (Some v) y = (if v \<noteq> [] then v else y)"

text \<open>\<open>if dossier_id: file_metadata['parents'] = [dossier_id]\<close>: the key is absent
  otherwise.\<close>

fun parents_of :: "string option \<Rightarrow> string list option" where
  "parents_of None = None"
| "parents_of (Some dossier_id) = (if dossier_id \<noteq> [] then Some [dossier_id] else None)"

subsection \<open>The local file system\<close>

text \<open>\<open>os.path.exists\<close>, \<open>with open(path, 'wb') as f: f.write(data)\<close>,
  \<open>open(path, 'rb').read()\<close> and the removal of a file.  Opening may be refused; a
  write that has begun is taken to complete.\<close>

definition exists_path :: "state \<Rightarrow> string \<Rightarrow> bool" where
  "exists_path s path = (fs s path \<noteq> None)"

definition write_file :: "env \<Rightarrow> string \<Rightarrow> bytes \<Rightarrow> unit run" where
  "write_file E path data s =
     (if writable E path then (Inr (), s\<lparr>fs := (fs s)(path \<mapsto> data)\<rparr>)
      else (Inl (OSError ''cannot open file for writing''), s))"

definition read_file :: "string \<Rightarrow> bytes run" where
  "read_file path s =
     (case fs s path of
        None \<Rightarrow> (Inl (OSError ''No such file or directory''), s)
      | Some data \<Rightarrow> (Inr data, s))"

definition remove_file :: "string \<Rightarrow> unit run" where
  "remove_file path s = (Inr (), s\<lparr>fs := (fs s)(path := None)\<rparr>)"

text \<open>\<open>os.path.basename\<close> (POSIX): what follows the last slash.\<close>

definition basename :: "string \<Rightarrow> string" where
  "basename path = rev (takeWhile (\<lambda>c. c \<noteq> CHR ''/'') (rev path))"

subsection \<open>The remote service\<close>

text \<open>
  A remote call consumes the head of the failure schedule.  A scheduled failure (network,
  quota, permission) raises before the service acts; otherwise the service's own
  semantics \<open>sem\<close> decides, and may itself answer with an error (unknown identifier,
  query it cannot read).  The trace records every call with its outcome.
\<close>

definition rpc :: "call \<Rightarrow> (state \<Rightarrow> exn + ('a \<times> state)) \<Rightarrow> 'a run" where
  "rpc c sem s =
     (case faults s of
        Some e # rest \<Rightarrow> (Inl e, s\<lparr>faults := rest, calls := calls s @ [(c, Some e)]\<rparr>)
      | _ \<Rightarrow>
        (let s0 = s\<lparr>faults := tl (faults s)\<rparr> in
         case sem s0 of
           Inl e \<Rightarrow> (Inl e, s0\<lparr>calls := calls s0 @ [(c, Some e)]\<rparr>)
         | Inr (a, s1) \<Rightarrow> (Inr a, s1\<lparr>calls := calls s1 @ [(c, None)]\<rparr>)))"

definition lookup :: "drive_file list \<Rightarrow> string \<Rightarrow> drive_file option" where
  "lookup rs fid = find (\<lambda>r. file_id r = fid) rs"

text \<open>What the service answers to a query text: the first page of the records it
  selects, in the order of the store, or an error when it cannot read the query.\<close>

definition list_response :: "env \<Rightarrow> string \<Rightarrow> drive_file list \<Rightarrow> exn + item list" where
  "list_response E q rs =
     (case interp E q of
        None \<Rightarrow> Inl (HttpError ''Invalid query'')
      | Some p \<Rightarrow> Inr (map to_item (take (page_size E) (filter p rs))))"

text \<open>\<open>self.service.files().list(q=query, fields=...).execute()\<close> followed by
  \<open>results.get('files', [])\<close>.\<close>

definition files_list :: "env \<Rightarrow> string \<Rightarrow> item list run" where
  "files_list E q =
     rpc (FilesList q)
       (\<lambda>s. case list_response E q (store s) of
               Inl e \<Rightarrow> Inl e
             | Inr items \<Rightarrow> Inr (items, s))"

text \<open>\<open>self.service.files().get(fileId=fichier_id).execute()\<close>.\<close>

definition files_get :: "string \<Rightarrow> metadata run" where
  "files_get fid =
     rpc (FilesGet fid)
       (\<lambda>s. case lookup (store s) fid of
               None \<Rightarrow> Inl (HttpError ''File not found'')
             | Some r \<Rightarrow> Inr (\<lparr>meta_name = file_name r, meta_mimeType = mimeType r\<rparr>, s))"

text \<open>\<open>self.service.files().export_media(fileId=..., mimeType=...).execute()\<close>.\<close>

definition export_media :: "env \<Rightarrow> string \<Rightarrow> string \<Rightarrow> bytes run" where
  "export_media E fid mt =
     rpc (ExportMedia fid mt)
       (\<lambda>s. case lookup (store s) fid of
               None \<Rightarrow> Inl (HttpError ''File not found'')
             | Some r \<Rightarrow>
                 (case export_as E r mt of
                    None \<Rightarrow> Inl (HttpError ''Export not supported'')
                  | Some data \<Rightarrow> Inr (data, s)))"

text \<open>
  \<open>MediaIoBaseDownload\<close> fetches the content in ranges of \<open>chunk_size\<close> bytes, one
  request per \<open>next_chunk()\<close>; the answer to the last range reports \<open>done\<close>.  An empty
  file still costs one request.
\<close>

function split_chunks :: "nat \<Rightarrow> bytes \<Rightarrow> bytes list" where
  "split_chunks n xs =
     (if n = 0 \<or> length xs \<le> n then [xs] else take n xs # split_chunks n (drop n xs))"
  by pat_completeness auto
termination
  by (relation "measure (\<lambda>(n, xs). length xs)") auto

declare split_chunks.simps [simp del]

definition media_chunks :: "env \<Rightarrow> drive_file list \<Rightarrow> string \<Rightarrow> bytes list" where
  "media_chunks E rs fid =
     (case lookup rs fid of
        None \<Rightarrow> [[]]
      | Some r \<Rightarrow> split_chunks (chunk_size E) (content r))"

definition next_chunk :: "string \<Rightarrow> bytes \<Rightarrow> bytes run" where
  "next_chunk fid c =
     rpc (GetMedia fid)
       (\<lambda>s. case lookup (store s) fid of
               None \<Rightarrow> Inl (HttpError ''File not found'')
             | Some r \<Rightarrow> Inr (c, s))"

text \<open>\<open>self.service.files().create(body=..., media_body=..., fields='id').execute()\<close>
  followed by \<open>file.get('id')\<close>: the service stores a new record under an identifier of
  its own choice.\<close>

definition files_create ::
  "env \<Rightarrow> string \<Rightarrow> string option \<Rightarrow> string list option \<Rightarrow> (string \<times> bytes) option
     \<Rightarrow> string option run" where
  "files_create E name mime ps media =
     rpc (FilesCreate name mime ps (map_option snd media))
       (\<lambda>s. let i = fresh_id E (store s);
                r = \<lparr>file_id = i, file_name = name,
                     mimeType = (case mime of
                                   Some m \<Rightarrow> m
                                 | None \<Rightarrow> (case media of
                                              Some (m, _) \<Rightarrow> m
                                            | None \<Rightarrow> ''application/octet-stream'')),
                     parents = (case ps of Some p \<Rightarrow> p | None \<Rightarrow> []),
                     trashed = False,
                     file_size = map_option (\<lambda>(_, data). length data) media,
                     createdTime = Some (now E),
                     content = (case media of Some (_, data) \<Rightarrow> data | None \<Rightarrow> [])\<rparr>
            in Inr (Some i, s\<lparr>store := store s @ [r]\<rparr>))"

section \<open>\<open>GoogleDriveManager.trouver_dossier_par_nom\<close>\<close>

definition folder_mime :: string where
  "folder_mime = ''application/vnd.google-apps.folder''"

text \<open>
  \<open>f"name='{nom_dossier}' and mimeType='application/vnd.google-apps.folder' and trashed=false"\<close>
\<close>

definition folder_query :: "string \<Rightarrow> string" where
  "folder_query nom_dossier =
     ''name='' @ [CHR 0x27] @ nom_dossier @ [CHR 0x27] @ '' and mimeType='' @ [CHR 0x27]
       @ folder_mime @ [CHR 0x27] @ '' and trashed=false''"

definition trouver_dossier_par_nom :: "env \<Rightarrow> string \<Rightarrow> state \<Rightarrow> string option \<times> state" where
  "trouver_dossier_par_nom E nom_dossier =
     try_except
       (andthen (files_list E (folder_query nom_dossier))
          (\<lambda>items. case items of
                      it # _ \<Rightarrow> ret (Some (item_id it))
                    | [] \<Rightarrow> ret None))
       FindError None"

section \<open>\<open>GoogleDriveManager.lister_fichiers\<close>\<close>

text \<open>\<open>if dossier_id: query = f"'{dossier_id}' in parents and trashed=false"\<close>,
  \<open>else: query = "trashed=false"\<close>.\<close>

definition parents_query :: "string \<Rightarrow> string" where
  "parents_query dossier_id = [CHR 0x27] @ dossier_id @ [CHR 0x27] @ '' in parents and trashed=false''"

fun list_query :: "string option \<Rightarrow> string" where
  "list_query None = ''trashed=false''"
| "list_query (Some dossier_id) =
     (if dossier_id \<noteq> [] then parents_query dossier_id else ''trashed=false'')"

text \<open>The \<open>for item in items\<close> loop: it only prints.\<close>

fun print_items :: "item list \<Rightarrow> unit run" where
  "print_items [] = ret ()"
| "print_items (it # its) =
     andthen (print (FileListed it)) (\<lambda>_. andthen (print Separator) (\<lambda>_. print_items its))"

text \<open>Lines 67 to 100: the part of the body after the folder has been resolved.\<close>

definition lister_requete :: "env \<Rightarrow> string option \<Rightarrow> item list run" where
  "lister_requete E dossier_id =
     andthen (files_list E (list_query dossier_id))
       (\<lambda>items.
          if items = [] then andthen (print NoFilesFound) (\<lambda>_. ret [])
          else andthen (print (FilesFound (length items)))
                 (\<lambda>_. andthen (print Separator)
                 (\<lambda>_. andthen (print_items items)
                 (\<lambda>_. ret items))))"

definition lister_fichiers ::
  "env \<Rightarrow> string option \<Rightarrow> string option \<Rightarrow> state \<Rightarrow> item list \<times> state" where
  "lister_fichiers E dossier_id nom_dossier =
     try_except
       (case nom_dossier of
          Some nom \<Rightarrow>
            if nom \<noteq> [] \<and> \<not> truthy dossier_id then
              andthen (total (trouver_dossier_par_nom E nom))
                (\<lambda>found.
                   if \<not> truthy found then andthen (print (FolderNotFound nom)) (\<lambda>_. ret [])
                   else lister_requete E found)
            else lister_requete E dossier_id
        | None \<Rightarrow> lister_requete E dossier_id)
       ListError []"

section \<open>\<open>GoogleDriveManager.telecharger_fichier\<close>\<close>

definition google_docs_types :: "(string \<times> string) list" where
  "google_docs_types =
     [(''application/vnd.google-apps.document'',
         ''application/vnd.openxmlformats-officedocument.wordprocessingml.document''),
      (''application/vnd.google-apps.spreadsheet'',
         ''application/vnd.openxmlformats-officedocument.spreadsheetml.sheet''),
      (''application/vnd.google-apps.presentation'',
         ''application/vnd.openxmlformats-officedocument.presentationml.presentation''),
      (''application/vnd.google-apps.drawing'', ''image/png'')]"

definition extensions :: "(string \<times> string) list" where
  "extensions =
     [(''application/vnd.openxmlformats-officedocument.wordprocessingml.document'', ''.docx''),
      (''application/vnd.openxmlformats-officedocument.spreadsheetml.sheet'', ''.xlsx''),
      (''application/vnd.openxmlformats-officedocument.presentationml.presentation'', ''.pptx''),
      (''image/png'', ''.png''),
      (''application/pdf'', ''.pdf''),
      (''text/plain'', ''.txt''),
      (''text/csv'', ''.csv'')]"

text \<open>\<open>str.lower\<close> on the ASCII letters and \<open>str.endswith\<close>.\<close>

definition lower_char :: "char \<Rightarrow> char" where
  "lower_char c =
     (case map_of (zip ''ABCDEFGHIJKLMNOPQRSTUVWXYZ'' ''abcdefghijklmnopqrstuvwxyz'') c of
        Some l \<Rightarrow> l
      | None \<Rightarrow> c)"

definition lower :: "string \<Rightarrow> string" where
  "lower s = map lower_char s"

definition endswith :: "string \<Rightarrow> string \<Rightarrow> bool" where
  "endswith s suffix =
     (length suffix \<le> length s \<and> drop (length s - length suffix) s = suffix)"

text \<open>Lines 172 to 175: \<open>if export_mime_type in extensions: ...\<close>.\<close>

definition ajouter_extension :: "string \<Rightarrow> string \<Rightarrow> string" where
  "ajouter_extension nom_fichier_local export_mime_type =
     (case map_of extensions export_mime_type of
        None \<Rightarrow> nom_fichier_local
      | Some ext \<Rightarrow>
          if \<not> endswith (lower nom_fichier_local) (lower ext) then nom_fichier_local @ ext
          else nom_fichier_local)"

text \<open>The \<open>while done is False\<close> loop over \<open>downloader.next_chunk()\<close>, filling the
  buffer \<open>fh\<close>.\<close>

fun download_loop :: "string \<Rightarrow> nat \<Rightarrow> bytes list \<Rightarrow> bytes \<Rightarrow> bytes run" where
  "download_loop fid total_size [] fh = ret fh"
| "download_loop fid total_size (c # cs) fh =
     andthen (next_chunk fid c)
       (\<lambda>chunk. andthen (print (Progress (length (fh @ chunk)) total_size))
       (\<lambda>_. download_loop fid total_size cs (fh @ chunk)))"

definition telecharger_fichier ::
  "env \<Rightarrow> string \<Rightarrow> string option \<Rightarrow> string option \<Rightarrow> state \<Rightarrow> bool \<times> state" where
  "telecharger_fichier E fichier_id nom_fichier_local format_export =
     try_except
       (andthen (files_get fichier_id)
       (\<lambda>file_metadata.
          let mime_type = meta_mimeType file_metadata;
              nom = or_else nom_fichier_local (meta_name file_metadata)
          in
          andthen (print (Downloading (meta_name file_metadata)))
       (\<lambda>_. andthen (print (MimeInfo mime_type))
       (\<lambda>_.
          case map_of google_docs_types mime_type of
            Some default_export \<Rightarrow>
              (let export_mime_type = or_else format_export default_export;
                   nom' = ajouter_extension nom export_mime_type
               in
               andthen (print (DocsDetected export_mime_type))
               (\<lambda>_. andthen (export_media E fichier_id export_mime_type)
               (\<lambda>content. andthen (write_file E nom' content)
               (\<lambda>_. andthen (print (DocsExported nom'))
               (\<lambda>_. ret True)))))
          | None \<Rightarrow>
              andthen (print BinaryDetected)
              (\<lambda>_. andthen
                     (\<lambda>s. download_loop fichier_id
                            (length (concat (media_chunks E (store s) fichier_id)))
                            (media_chunks E (store s) fichier_id) [] s)
              (\<lambda>data. andthen (write_file E nom data)
              (\<lambda>_. andthen (print (Downloaded nom))
              (\<lambda>_. ret True))))))))
       DownloadError False"

section \<open>\<open>GoogleDriveManager.uploader_fichier\<close>\<close>

definition uploader_fichier ::
  "env \<Rightarrow> string \<Rightarrow> string option \<Rightarrow> string option \<Rightarrow> state \<Rightarrow> string option \<times> state" where
  "uploader_fichier E chemin_fichier_local dossier_id nom_dossier =
     try_except
       (\<lambda>s.
          if \<not> exists_path s chemin_fichier_local then
            andthen (print (LocalNotFound chemin_fichier_local)) (\<lambda>_. ret None) s
          else
            andthen
              (case nom_dossier of
                 Some nom \<Rightarrow>
                   if nom \<noteq> [] \<and> \<not> truthy dossier_id then
                     andthen (total (trouver_dossier_par_nom E nom))
                       (\<lambda>found.
                          if \<not> truthy found
                          then andthen (print (FolderNotFound nom)) (\<lambda>_. ret None)
                          else ret (Some found))
                   else ret (Some dossier_id)
               | None \<Rightarrow> ret (Some dossier_id))
              (\<lambda>resolved.
                 case resolved of
                   None \<Rightarrow> ret None
                 | Some dossier \<Rightarrow>
                     (let nom_fichier = basename chemin_fichier_local in
                      andthen (read_file chemin_fichier_local)
                      (\<lambda>data. andthen (print (Uploading nom_fichier))
                      (\<lambda>_. andthen
                             (files_create E nom_fichier None
                                (parents_of dossier)
                                (Some (guess_mime E chemin_fichier_local, data)))
                      (\<lambda>file_id. andthen (print (Uploaded file_id))
                      (\<lambda>_. ret file_id)))))) s)
       UploadError None"

section \<open>\<open>GoogleDriveManager.obtenir_formats_export\<close>\<close>

definition formats_disponibles :: "(string \<times> (string \<times> string) list) list" where
  "formats_disponibles =
     [(''application/vnd.google-apps.document'',
         [(''application/vnd.openxmlformats-officedocument.wordprocessingml.document'',
             ''.docx (Word)''),
          (''application/pdf'', ''.pdf''),
          (''text/plain'', ''.txt''),
          (''application/rtf'', ''.rtf''),
          (''application/vnd.oasis.opendocument.text'', ''.odt'')]),
      (''application/vnd.google-apps.spreadsheet'',
         [(''application/vnd.openxmlformats-officedocument.spreadsheetml.sheet'',
             ''.xlsx (Excel)''),
          (''application/pdf'', ''.pdf''),
          (''text/csv'', ''.csv''),
          (''application/vnd.oasis.opendocument.spreadsheet'', ''.ods'')]),
      (''application/vnd.google-apps.presentation'',
         [(''application/vnd.openxmlformats-officedocument.presentationml.presentation'',
             ''.pptx (PowerPoint)''),
          (''application/pdf'', ''.pdf''),
          (''image/jpeg'', ''.jpg''),
          (''image/png'', ''.png''),
          (''application/vnd.oasis.opendocument.presentation'', ''.odp'')]),
      (''application/vnd.google-apps.drawing'',
         [(''image/png'', ''.png''),
          (''image/jpeg'', ''.jpg''),
          (''image/svg+xml'', ''.svg''),
          (''application/pdf'', ''.pdf'')])]"

fun print_formats :: "(string \<times> string) list \<Rightarrow> unit run" where
  "print_formats [] = ret ()"
| "print_formats ((format_mime, description) # rest) =
     andthen (print (FormatLine format_mime description)) (\<lambda>_. print_formats rest)"

definition obtenir_formats_export ::
  "env \<Rightarrow> string \<Rightarrow> state \<Rightarrow> (string \<times> string) list \<times> state" where
  "obtenir_formats_export E fichier_id =
     try_except
       (andthen (files_get fichier_id)
       (\<lambda>file_metadata.
          case map_of formats_disponibles (meta_mimeType file_metadata) of
            Some formats \<Rightarrow>
              andthen (print (FormatsHeader (meta_name file_metadata)))
              (\<lambda>_. andthen (print_formats formats)
              (\<lambda>_. ret formats))
          | None \<Rightarrow>
              andthen (print (BinaryNoExport (meta_mimeType file_metadata)))
              (\<lambda>_. ret [])))
       FormatsError []"

section \<open>\<open>GoogleDriveManager.creer_dossier\<close>\<close>

definition creer_dossier ::
  "env \<Rightarrow> string \<Rightarrow> string option \<Rightarrow> state \<Rightarrow> string option \<times> state" where
  "creer_dossier E nom_dossier dossier_parent_id =
     try_except
       (andthen
          (files_create E nom_dossier (Some folder_mime)
             (parents_of dossier_parent_id)
             None)
       (\<lambda>file_id. andthen (print (FolderCreated nom_dossier file_id))
       (\<lambda>_. ret file_id)))
       CreateError None"

section \<open>Reports\<close>

text \<open>
  \<open>frontend.py\<close> calls \<open>drive_manager.uploader_report(objet_a_pickler, nom_fichier, dossier_id)\<close>
  and \<open>drive_manager.load_report(fichier_id)\<close> of a module \<open>utils_drive\<close> that is not among
  the source files.  The serialization format is a pair of functions.
\<close>

record 'v pickle =
  dumps :: "'v \<Rightarrow> bytes"
  loads :: "bytes \<Rightarrow> 'v option"

text \<open>
  Modelled from the spec: \<open>save_report(value, name, folder_id)\<close> (\<open>uploader_report\<close> at
  its call site), whose code is missing.  It "serializes value to a binary blob using a
  process-wide serialization format, writes it to a temporary local location, and
  delegates to upload.  The temporary artifact must be removed after the upload attempt
  regardless of outcome."
\<close>

definition uploader_report ::
  "'v pickle \<Rightarrow> env \<Rightarrow> 'v \<Rightarrow> string \<Rightarrow> string option \<Rightarrow> string option run" where
  "uploader_report P E objet_a_pickler nom_fichier dossier_id =
     andthen (write_file E (temp_path E nom_fichier) (dumps P objet_a_pickler))
     (\<lambda>_. andthen (total (uploader_fichier E (temp_path E nom_fichier) dossier_id None))
     (\<lambda>file_id. andthen (remove_file (temp_path E nom_fichier))
     (\<lambda>_. ret file_id)))"

text \<open>
  Modelled from the spec: \<open>load_report(file_id)\<close>, whose code is missing.  It "delegates
  to download into a temporary local location, deserializes the blob back into an
  in-memory value using the same serialization format, removes the temporary artifact,
  and returns the value.  Fails if the blob is not a well-formed serialized value of the
  expected format."
\<close>

definition load_report :: "'v pickle \<Rightarrow> env \<Rightarrow> string \<Rightarrow> 'v run" where
  "load_report P E fichier_id =
     andthen (total (telecharger_fichier E fichier_id (Some (temp_path E fichier_id)) None))
     (\<lambda>_. andthen (read_file (temp_path E fichier_id))
     (\<lambda>blob. case loads P blob of
                None \<Rightarrow> raise (UnpicklingError ''invalid load key'')
              | Some objet \<Rightarrow>
                  andthen (remove_file (temp_path E fichier_id)) (\<lambda>_. ret objet)))"

section \<open>What a run does to the trace, the messages and the local files\<close>

text \<open>The remote calls made, and the messages printed, between two states.\<close>

definition new_calls :: "state \<Rightarrow> state \<Rightarrow> (call \<times> exn option) list" where
  "new_calls s s' = drop (length (calls s)) (calls s')"

definition new_log :: "state \<Rightarrow> state \<Rightarrow> message list" where
  "new_log s s' = drop (length (log s)) (log s')"

text \<open>No remote failure is scheduled.\<close>

definition reliable :: "state \<Rightarrow> bool" where
  "reliable s = list_all (\<lambda>f. f = None) (faults s)"

text \<open>
  A run is \<open>tracked\<close> when it only appends to the trace and to the messages, and
  every remote call that failed during it is the exception it raised.  It is \<open>quiet\<close>
  when it leaves the local files alone.  A service semantics is \<open>inert\<close> when it
  touches nothing but the remote store.
\<close>

definition tracked :: "'a run \<Rightarrow> bool" where
  "tracked m =
     (\<forall>s. \<exists>cs ms. calls (snd (m s)) = calls s @ cs \<and> log (snd (m s)) = log s @ ms \<and>
        (\<forall>c e. (c, Some e) \<in> set cs \<longrightarrow> fst (m s) = Inl e))"

definition quiet :: "'a run \<Rightarrow> bool" where
  "quiet m = (\<forall>s. fs (snd (m s)) = fs s)"

text \<open>A download either succeeds or leaves the local files as they were.\<close>

definition all_or_nothing :: "bool run \<Rightarrow> bool" where
  "all_or_nothing m = (\<forall>s. fst (m s) = Inr True \<or> fs (snd (m s)) = fs s)"

text \<open>
  A run \<open>contains\<close> its remote failures when each of them is either the exception it
  raises, or was handled on the way: then the value returned is marked by \<open>F\<close> and a
  message of \<open>K\<close> carrying the text of the exception has been printed.  A method
  \<open>catches\<close> them when, after any failed remote call, it returns its failure indicator
  and has printed such a message.
\<close>

definition contained :: "('a \<Rightarrow> bool) \<Rightarrow> (string \<Rightarrow> message) set \<Rightarrow> 'a run \<Rightarrow> bool" where
  "contained F K m =
     (\<forall>s. \<exists>cs ms. calls (snd (m s)) = calls s @ cs \<and> log (snd (m s)) = log s @ ms \<and>
        (\<forall>c e. (c, Some e) \<in> set cs \<longrightarrow>
           (case fst (m s) of
              Inl e' \<Rightarrow> e' = e
            | Inr a \<Rightarrow> F a \<and> (\<exists>k \<in> K. k (str e) \<in> set ms))))"

definition catches ::
  "'a \<Rightarrow> (string \<Rightarrow> message) set \<Rightarrow> (state \<Rightarrow> 'a \<times> state) \<Rightarrow> bool" where
  "catches failure K f =
     (\<forall>s c e. (c, Some e) \<in> set (new_calls s (snd (f s))) \<longrightarrow>
        fst (f s) = failure \<and> (\<exists>k \<in> K. k (str e) \<in> set (new_log s (snd (f s)))))"

definition inert :: "(state \<Rightarrow> exn + ('a \<times> state)) \<Rightarrow> bool" where
  "inert sem =
     (\<forall>s a s1. sem s = Inr (a, s1) \<longrightarrow> calls s1 = calls s \<and> log s1 = log s \<and> fs s1 = fs s)"

section \<open>A small store to run the operations on\<close>

definition demo_folder :: drive_file where
  "demo_folder =
     \<lparr>file_id = ''F1'', file_name = ''Reports'', mimeType = folder_mime, parents = [],
      trashed = False, file_size = None, createdTime = Some ''2024-01-01T00:00:00Z'',
      content = []\<rparr>"

definition demo_trashed :: drive_file where
  "demo_trashed =
     \<lparr>file_id = ''T1'', file_name = ''old.txt'', mimeType = ''text/plain'', parents = [''F1''],
      trashed = True, file_size = Some 3, createdTime = Some ''2024-01-02T00:00:00Z'',
      content = ''old''\<rparr>"

definition demo_doc :: drive_file where
  "demo_doc =
     \<lparr>file_id = ''D1'', file_name = ''Plan.DOCX'',
      mimeType = ''application/vnd.google-apps.document'', parents = [''F1''],
      trashed = False, file_size = None, createdTime = Some ''2024-01-03T00:00:00Z'',
      content = []\<rparr>"

definition demo_bin :: drive_file where
  "demo_bin =
     \<lparr>file_id = ''B1'', file_name = ''data.bin'', mimeType = ''application/octet-stream'',
      parents = [''F1''], trashed = False, file_size = Some 11,
      createdTime = Some ''2024-01-04T00:00:00Z'', content = ''hello world''\<rparr>"

definition demo_store :: "drive_file list" where
  "demo_store = [demo_folder, demo_trashed, demo_doc, demo_bin]"

definition demo_env :: env where
  "demo_env =
     \<lparr>interp =
        (\<lambda>q. if q = ''trashed=false'' then Some (\<lambda>r. \<not> trashed r)
             else if q = parents_query ''F1''
               then Some (\<lambda>r. ''F1'' \<in> set (parents r) \<and> \<not> trashed r)
             else if q = folder_query ''Reports''
               then Some (\<lambda>r. file_name r = ''Reports'' \<and> mimeType r = folder_mime
                                 \<and> \<not> trashed r)
             else if q = folder_query ''Missing''
               then Some (\<lambda>r. file_name r = ''Missing'' \<and> mimeType r = folder_mime
                                 \<and> \<not> trashed r)
             else if q = folder_query []
               then Some (\<lambda>r. file_name r = [] \<and> mimeType r = folder_mime \<and> \<not> trashed r)
             else None),
      page_size = 100,
      chunk_size = 4,
      guess_mime = (\<lambda>path. ''application/octet-stream''),
      export_as = (\<lambda>r mt. Some (''exported:'' @ file_name r)),
      fresh_id = (\<lambda>rs. ''N'' @ concat (map file_id rs)),
      now = ''2024-02-01T00:00:00Z'',
      writable = (\<lambda>path. path \<noteq> []),
      temp_path = (\<lambda>name. ''/tmp/'' @ name)\<rparr>"

definition demo_state :: state where
  "demo_state =
     \<lparr>store = demo_store, faults = [], calls = [],
      fs = [''/home/report.txt'' \<mapsto> ''abc''], log = []\<rparr>"

text \<open>The same, with the next remote call failing.\<close>

definition demo_offline :: state where
  "demo_offline = demo_state\<lparr>faults := [Some (HttpError ''timed out'')]\<rparr>"

text \<open>A serialization format for natural numbers: \<open>n\<close> strokes.\<close>

definition demo_pickle :: "nat pickle" where
  "demo_pickle =
     \<lparr>dumps = (\<lambda>n. replicate n (CHR ''I'')),
      loads = (\<lambda>blob. if list_all (\<lambda>c. c = CHR ''I'') blob then Some (length blob) else None)\<rparr>"

text \<open>The same, with the third remote call failing.\<close>

definition demo_flaky :: state where
  "demo_flaky = demo_state\<lparr>faults := [None, None, Some (HttpError ''connection reset'')]\<rparr>"




section \<open>Lemmas about runs\<close>

lemma tracked_ret: "tracked (ret a)"
  by (simp add: tracked_def ret_def)

lemma tracked_raise: "tracked (raise e)"
  by (simp add: tracked_def raise_def)

lemma tracked_print: "tracked (print m)"
  by (simp add: tracked_def print_def)

lemma tracked_andthen:
  assumes "tracked m" and "\<And>a. tracked (k a)"
  shows "tracked (andthen m k)"
  unfolding tracked_def
proof
  fix s
  from assms(1) obtain cs1 ms1 where m: "calls (snd (m s)) = calls s @ cs1" "log (snd (m s)) = log s @ ms1"
    "\<forall>c e. (c, Some e) \<in> set cs1 \<longrightarrow> fst (m s) = Inl e"
    unfolding tracked_def by blast
  show "\<exists>cs ms. calls (snd (andthen m k s)) = calls s @ cs \<and> log (snd (andthen m k s)) = log s @ ms \<and>
          (\<forall>c e. (c, Some e) \<in> set cs \<longrightarrow> fst (andthen m k s) = Inl e)"
  proof (cases "m s")
    case (Pair r s1)
    show ?thesis
    proof (cases r)
      case (Inl e)
      with Pair m show ?thesis by (simp add: andthen_def)
    next
      case (Inr a)
      from assms(2)[of a] obtain cs2 ms2 where k: "calls (snd (k a s1)) = calls s1 @ cs2"
        "log (snd (k a s1)) = log s1 @ ms2" "\<forall>c e. (c, Some e) \<in> set cs2 \<longrightarrow> fst (k a s1) = Inl e"
        unfolding tracked_def by blast
      from Pair Inr m have clean: "\<forall>c e. (c, Some e) \<notin> set cs1" by auto
      from Pair Inr m k clean show ?thesis by (auto simp: andthen_def)
    qed
  qed
qed

lemma tracked_rpc: "inert sem \<Longrightarrow> tracked (rpc c sem)"
  unfolding tracked_def inert_def
  apply (rule allI)
  subgoal for s
    apply (cases "faults s")
     apply (auto simp: rpc_def Let_def split: sum.splits option.splits list.splits)
    done
  done

lemma tracked_write_file: "tracked (write_file E p d)"
  by (simp add: tracked_def write_file_def)

lemma tracked_read_file: "tracked (read_file p)"
  by (simp add: tracked_def read_file_def split: option.split)

lemma tracked_remove_file: "tracked (remove_file p)"
  by (simp add: tracked_def remove_file_def)

lemma tracked_state: "(\<And>x. tracked (f x)) \<Longrightarrow> tracked (\<lambda>s. f (g s) s)"
  by (simp add: tracked_def)

lemma quiet_ret: "quiet (ret a)"
  by (simp add: quiet_def ret_def)

lemma quiet_print: "quiet (print m)"
  by (simp add: quiet_def print_def)

lemma quiet_andthen:
  assumes "quiet m" and "\<And>a. quiet (k a)"
  shows "quiet (andthen m k)"
  unfolding quiet_def
proof
  fix s
  obtain r s1 where ms: "m s = (r, s1)" by (cases "m s")
  from assms(1) ms have f1: "fs s1 = fs s" by (auto simp: quiet_def dest: spec [of _ s])
  show "fs (snd (andthen m k s)) = fs s"
  proof (cases r)
    case (Inl e)
    with ms f1 show ?thesis by (simp add: andthen_def)
  next
    case (Inr a)
    from assms(2) [of a] have "fs (snd (k a s1)) = fs s1" by (simp add: quiet_def)
    with ms Inr f1 show ?thesis by (simp add: andthen_def)
  qed
qed

lemma quiet_rpc: "inert sem \<Longrightarrow> quiet (rpc c sem)"
  unfolding quiet_def inert_def
  apply (rule allI)
  subgoal for s
    apply (cases "faults s")
     apply (auto simp: rpc_def Let_def split: sum.splits option.splits list.splits)
    done
  done

lemma quiet_state: "(\<And>x. quiet (f x)) \<Longrightarrow> quiet (\<lambda>s. f (g s) s)"
  by (simp add: quiet_def)

lemma inert_list: "inert (\<lambda>s. case list_response E q (store s) of Inl e \<Rightarrow> Inl e | Inr items \<Rightarrow> Inr (items, s))"
  by (auto simp: inert_def split: sum.splits)

lemma inert_get: "inert (\<lambda>s. case lookup (store s) fid of None \<Rightarrow> Inl (HttpError m) | Some r \<Rightarrow> Inr (f r, s))"
  by (auto simp: inert_def split: option.splits)

lemma inert_export: "inert (\<lambda>s. case lookup (store s) fid of None \<Rightarrow> Inl (HttpError m)
   | Some r \<Rightarrow> (case export_as E r mt of None \<Rightarrow> Inl (HttpError m') | Some d \<Rightarrow> Inr (d, s)))"
  by (auto simp: inert_def split: option.splits)

lemma tracked_files_list: "tracked (files_list E q)"
  unfolding files_list_def by (rule tracked_rpc, rule inert_list)

lemma tracked_files_get: "tracked (files_get fid)"
  unfolding files_get_def by (rule tracked_rpc, rule inert_get)

lemma tracked_export_media: "tracked (export_media E fid mt)"
  unfolding export_media_def by (rule tracked_rpc, rule inert_export)

lemma tracked_next_chunk: "tracked (next_chunk fid c)"
  unfolding next_chunk_def by (rule tracked_rpc, rule inert_get)

lemma tracked_files_create: "tracked (files_create E n m ps md)"
  unfolding files_create_def by (rule tracked_rpc) (simp add: inert_def Let_def)

lemma quiet_files_get: "quiet (files_get fid)"
  unfolding files_get_def by (rule quiet_rpc, rule inert_get)

lemma quiet_export_media: "quiet (export_media E fid mt)"
  unfolding export_media_def by (rule quiet_rpc, rule inert_export)

lemma quiet_next_chunk: "quiet (next_chunk fid c)"
  unfolding next_chunk_def by (rule quiet_rpc, rule inert_get)

lemma tracked_download_loop: "tracked (download_loop fid n cs fh)"
  by (induction cs arbitrary: fh)
     (auto intro!: tracked_ret tracked_andthen tracked_next_chunk tracked_print)

lemma quiet_download_loop: "quiet (download_loop fid n cs fh)"
  by (induction cs arbitrary: fh)
     (auto intro!: quiet_ret quiet_andthen quiet_next_chunk quiet_print)

lemma tracked_print_items: "tracked (print_items its)"
  by (induction its) (auto intro!: tracked_ret tracked_andthen tracked_print)

lemma tracked_print_formats: "tracked (print_formats fmts)"
  by (induction fmts) (auto intro!: tracked_ret tracked_andthen tracked_print)

lemma tracked_lister_requete: "tracked (lister_requete E d)"
  unfolding lister_requete_def
  by (auto intro!: tracked_ret tracked_andthen tracked_print tracked_files_list tracked_print_items)


lemma rpc_reliable:
  "reliable s \<Longrightarrow>
   rpc c sem s =
     (case sem (s\<lparr>faults := tl (faults s)\<rparr>) of
        Inl e \<Rightarrow> (Inl e, s\<lparr>faults := tl (faults s), calls := calls s @ [(c, Some e)]\<rparr>)
      | Inr (a, s1) \<Rightarrow> (Inr a, s1\<lparr>calls := calls s1 @ [(c, None)]\<rparr>))"
  by (cases "faults s") (auto simp: reliable_def rpc_def Let_def split: sum.splits option.splits list.splits)

lemma reliable_tl: "reliable s \<Longrightarrow> reliable (s\<lparr>faults := tl (faults s)\<rparr>)"
  by (cases "faults s") (auto simp: reliable_def)

lemma print_items_run:
  "print_items its s = (Inr (), s\<lparr>log := log s @ concat (map (\<lambda>it. [FileListed it, Separator]) its)\<rparr>)"
  by (induction its arbitrary: s) (simp_all add: ret_def andthen_def print_def)

lemma rpc_cases:
  assumes "rpc c sem s = (r, s')"
  obtains (fault) e rest where "faults s = Some e # rest" "r = Inl e"
      "s' = s\<lparr>faults := rest, calls := calls s @ [(c, Some e)]\<rparr>"
  | (error) e where "sem (s\<lparr>faults := tl (faults s)\<rparr>) = Inl e" "r = Inl e"
      "s' = s\<lparr>faults := tl (faults s), calls := calls s @ [(c, Some e)]\<rparr>"
  | (ok) a s1 where "sem (s\<lparr>faults := tl (faults s)\<rparr>) = Inr (a, s1)" "r = Inr a"
      "s' = s1\<lparr>calls := calls s1 @ [(c, None)]\<rparr>"
proof (cases "faults s")
  case Nil
  show ?thesis
  proof (cases "sem (s\<lparr>faults := tl (faults s)\<rparr>)")
    case (Inl e)
    with Nil assms show ?thesis by (intro error [of e]) (auto simp: rpc_def Let_def)
  next
    case (Inr p)
    obtain a s1 where p: "p = (a, s1)" by (cases p)
    with Inr Nil assms show ?thesis by (intro ok [of a s1]) (auto simp: rpc_def Let_def)
  qed
next
  case (Cons f rest)
  show ?thesis
  proof (cases f)
    case (Some e)
    with Cons assms show ?thesis by (intro fault [of e rest]) (auto simp: rpc_def)
  next
    case None
    show ?thesis
    proof (cases "sem (s\<lparr>faults := tl (faults s)\<rparr>)")
      case (Inl e)
      with None Cons assms show ?thesis by (intro error [of e]) (auto simp: rpc_def Let_def)
    next
      case (Inr p)
      obtain a s1 where p: "p = (a, s1)" by (cases p)
      with Inr None Cons assms show ?thesis by (intro ok [of a s1]) (auto simp: rpc_def Let_def)
    qed
  qed
qed

lemma files_list_cases:
  assumes "files_list E q s = (r, s')"
  shows "(\<exists>e. r = Inl e \<and> calls s' = calls s @ [(FilesList q, Some e)])
         \<or> (\<exists>items. r = Inr items \<and> list_response E q (store s) = Inr items
               \<and> calls s' = calls s @ [(FilesList q, None)])"
    and "log s' = log s" and "fs s' = fs s" and "store s' = store s"
  using assms unfolding files_list_def
  by (elim rpc_cases; simp split: sum.splits; fastforce)+

lemma trouver_cases:
  assumes "trouver_dossier_par_nom E nom s = (r, s')"
  shows "(\<exists>e. r = None \<and> calls s' = calls s @ [(FilesList (folder_query nom), Some e)]
            \<and> log s' = log s @ [FindError (str e)])
         \<or> (\<exists>items. list_response E (folder_query nom) (store s) = Inr items
            \<and> r = (case items of [] \<Rightarrow> None | it # _ \<Rightarrow> Some (item_id it))
            \<and> calls s' = calls s @ [(FilesList (folder_query nom), None)]
            \<and> log s' = log s)"
    and "fs s' = fs s" and "store s' = store s"
proof -
  obtain r1 s1 where fl: "files_list E (folder_query nom) s = (r1, s1)"
    by (cases "files_list E (folder_query nom) s")
  note c = files_list_cases [OF fl]
  show "(\<exists>e. r = None \<and> calls s' = calls s @ [(FilesList (folder_query nom), Some e)]
            \<and> log s' = log s @ [FindError (str e)])
         \<or> (\<exists>items. list_response E (folder_query nom) (store s) = Inr items
            \<and> r = (case items of [] \<Rightarrow> None | it # _ \<Rightarrow> Some (item_id it))
            \<and> calls s' = calls s @ [(FilesList (folder_query nom), None)]
            \<and> log s' = log s)"
    using c(1)
  proof (elim disjE exE conjE)
    fix e assume "r1 = Inl e" "calls s1 = calls s @ [(FilesList (folder_query nom), Some e)]"
    with assms fl c(2) show ?thesis
      by (auto simp: trouver_dossier_par_nom_def try_except_def andthen_def)
  next
    fix items assume "r1 = Inr items" "list_response E (folder_query nom) (store s) = Inr items"
      "calls s1 = calls s @ [(FilesList (folder_query nom), None)]"
    with assms fl c(2) show ?thesis
      by (cases items) (auto simp: trouver_dossier_par_nom_def try_except_def andthen_def ret_def)
  qed
  from assms fl c show "fs s' = fs s"
    by (cases r1) (auto simp: trouver_dossier_par_nom_def try_except_def andthen_def ret_def
         split: list.splits)
  from assms fl c show "store s' = store s"
    by (cases r1) (auto simp: trouver_dossier_par_nom_def try_except_def andthen_def ret_def
         split: list.splits)
qed

lemma list_response_sound:
  assumes "interp E q = Some p" and "list_response E q rs = Inr items" and "it \<in> set items"
  shows "\<exists>r \<in> set rs. it = to_item r \<and> p r"
proof -
  from assms have "it \<in> to_item ` set (take (page_size E) (filter p rs))"
    by (auto simp: list_response_def)
  then obtain r where "r \<in> set (take (page_size E) (filter p rs))" "it = to_item r" by blast
  moreover then have "r \<in> set (filter p rs)" by (meson in_set_takeD)
  ultimately show ?thesis by auto
qed

lemma files_list_reliable:
  assumes "reliable s" and "list_response E q (store s) = Inr items"
  shows "files_list E q s
           = (Inr items, s\<lparr>faults := tl (faults s), calls := calls s @ [(FilesList q, None)]\<rparr>)"
  using assms by (simp add: files_list_def rpc_reliable)

lemma lister_requete_result:
  assumes "lister_requete E d s = (Inr items, s')"
  shows "items = [] \<or> list_response E (list_query d) (store s) = Inr items"
proof -
  obtain r1 s1 where fl: "files_list E (list_query d) s = (r1, s1)"
    by (cases "files_list E (list_query d) s")
  from files_list_cases(1) [OF fl] show ?thesis
  proof (elim disjE exE conjE)
    fix e assume "r1 = Inl e"
    with assms fl show ?thesis by (simp add: lister_requete_def andthen_def)
  next
    fix found assume "r1 = Inr found" "list_response E (list_query d) (store s) = Inr found"
    with assms fl show ?thesis
      by (cases "found = []")
         (auto simp: lister_requete_def andthen_def print_def ret_def print_items_run)
  qed
qed

lemma lister_requete_reliable:
  assumes "reliable s" and "list_response E (list_query d) (store s) = Inr items"
  shows "fst (lister_requete E d s) = Inr items"
  using assms
  by (simp add: lister_requete_def andthen_def files_list_reliable print_def ret_def
        print_items_run)

lemma print_formats_run:
  "print_formats fmts s = (Inr (), s\<lparr>log := log s @ map (\<lambda>(m, d). FormatLine m d) fmts\<rparr>)"
  by (induction fmts arbitrary: s) (auto simp: ret_def andthen_def print_def)

lemma files_get_reliable:
  assumes "reliable s" and "lookup (store s) fid = Some r"
  shows "files_get fid s
           = (Inr \<lparr>meta_name = file_name r, meta_mimeType = mimeType r\<rparr>,
              s\<lparr>faults := tl (faults s), calls := calls s @ [(FilesGet fid, None)]\<rparr>)"
  using assms by (simp add: files_get_def rpc_reliable)

lemma obtenir_reliable:
  assumes "reliable s" and "lookup (store s) fid = Some r"
  shows "fst (obtenir_formats_export E fid s)
           = (case map_of formats_disponibles (mimeType r) of Some f \<Rightarrow> f | None \<Rightarrow> [])"
  using assms
  by (simp add: obtenir_formats_export_def try_except_def andthen_def files_get_reliable
        print_def ret_def print_formats_run split: option.split)

lemma lister_fichiers_reliable:
  assumes "reliable s" and "list_response E (list_query d) (store s) = Inr items"
      and "\<not> truthy nom \<or> truthy d"
  shows "fst (lister_fichiers E d nom s) = items"
proof -
  from assms(3) have "lister_fichiers E d nom s = try_except (lister_requete E d) ListError [] s"
    by (cases nom) (auto simp: lister_fichiers_def try_except_def)
  with lister_requete_reliable [OF assms(1,2)] show ?thesis
    by (cases "lister_requete E d s") (simp add: try_except_def)
qed

lemma reliable_step [simp]:
  "reliable s \<Longrightarrow> reliable (s\<lparr>faults := tl (faults s), calls := c\<rparr>)"
  by (cases "faults s") (auto simp: reliable_def)

lemma reliable_log [simp]: "reliable (s\<lparr>log := l\<rparr>) = reliable s"
  by (simp add: reliable_def)

lemma reliable_fs [simp]: "reliable (s\<lparr>fs := f\<rparr>) = reliable s"
  by (simp add: reliable_def)

lemma reliable_store [simp]: "reliable (s\<lparr>store := f\<rparr>) = reliable s"
  by (simp add: reliable_def)

lemma obtenir_run:
  assumes "reliable s" and "lookup (store s) fid = Some r"
  shows "obtenir_formats_export E fid s
           = (case map_of formats_disponibles (mimeType r) of
                Some f \<Rightarrow>
                  (f, s\<lparr>faults := tl (faults s), calls := calls s @ [(FilesGet fid, None)],
                        log := log s @ FormatsHeader (file_name r) # map (\<lambda>(m, d). FormatLine m d) f\<rparr>)
              | None \<Rightarrow>
                  ([], s\<lparr>faults := tl (faults s), calls := calls s @ [(FilesGet fid, None)],
                         log := log s @ [BinaryNoExport (mimeType r)]\<rparr>))"
  using assms
  by (simp add: obtenir_formats_export_def try_except_def andthen_def files_get_reliable
        print_def ret_def print_formats_run split: option.split)

lemma export_media_reliable:
  assumes "reliable s" and "lookup (store s) fid = Some r"
  shows "export_media E fid mt s
           = (case export_as E r mt of
                None \<Rightarrow> (Inl (HttpError ''Export not supported''),
                          s\<lparr>faults := tl (faults s),
                            calls := calls s @ [(ExportMedia fid mt, Some (HttpError ''Export not supported''))]\<rparr>)
              | Some data \<Rightarrow> (Inr data,
                          s\<lparr>faults := tl (faults s), calls := calls s @ [(ExportMedia fid mt, None)]\<rparr>))"
  using assms by (simp add: export_media_def rpc_reliable split: option.split)

lemma telecharger_export_run:
  assumes "reliable s" and "lookup (store s) fid = Some r"
      and "map_of google_docs_types (mimeType r) = Some d"
  shows "telecharger_fichier E fid nom fmt s
           = (let em = or_else fmt d;
                  nom' = ajouter_extension (or_else nom (file_name r)) em;
                  s2 = s\<lparr>faults := tl (tl (faults s)),
                         log := log s @ [Downloading (file_name r), MimeInfo (mimeType r),
                                         DocsDetected em]\<rparr>
              in case export_as E r em of
                   None \<Rightarrow>
                     (False, s2\<lparr>calls := calls s @ [(FilesGet fid, None),
                                   (ExportMedia fid em, Some (HttpError ''Export not supported''))],
                                 log := log s2 @ [DownloadError ''Export not supported'']\<rparr>)
                 | Some data \<Rightarrow>
                     if writable E nom'
                     then (True, s2\<lparr>calls := calls s @ [(FilesGet fid, None), (ExportMedia fid em, None)],
                                    fs := (fs s)(nom' \<mapsto> data),
                                    log := log s2 @ [DocsExported nom']\<rparr>)
                     else (False, s2\<lparr>calls := calls s @ [(FilesGet fid, None), (ExportMedia fid em, None)],
                                     log := log s2 @ [DownloadError ''cannot open file for writing'']\<rparr>))"
  using assms
  by (simp add: telecharger_fichier_def try_except_def andthen_def files_get_reliable
        export_media_reliable print_def ret_def write_file_def Let_def split: option.split)

lemma endswith_append: "endswith (a @ b) b"
  by (simp add: endswith_def)

lemma lower_append: "lower (a @ b) = lower a @ lower b"
  by (simp add: lower_def)

lemma default_export_table:
  assumes "(m, em, ext) \<in> set
     [(''application/vnd.google-apps.document'',
         ''application/vnd.openxmlformats-officedocument.wordprocessingml.document'', ''.docx''),
      (''application/vnd.google-apps.spreadsheet'',
         ''application/vnd.openxmlformats-officedocument.spreadsheetml.sheet'', ''.xlsx''),
      (''application/vnd.google-apps.presentation'',
         ''application/vnd.openxmlformats-officedocument.presentationml.presentation'', ''.pptx''),
      (''application/vnd.google-apps.drawing'', ''image/png'', ''.png'')]"
  shows "map_of google_docs_types m = Some em"
    and "map_of extensions em = Some ext"
    and "lower ext = ext"
  using assms
  by (auto simp: google_docs_types_def extensions_def lower_def lower_char_def)

lemma lookup_demo_doc: "lookup (store demo_state) ''D1'' = Some demo_doc"
  by (simp add: lookup_def demo_state_def demo_store_def demo_folder_def demo_trashed_def
        demo_doc_def)

lemma lookup_demo_bin: "lookup (store demo_state) ''B1'' = Some demo_bin"
  by (simp add: lookup_def demo_state_def demo_store_def demo_folder_def demo_trashed_def
        demo_doc_def demo_bin_def)

lemma contained_tracked: "tracked m \<Longrightarrow> contained F K m"
  unfolding tracked_def contained_def
proof
  fix s
  assume "\<forall>s. \<exists>cs ms. calls (snd (m s)) = calls s @ cs \<and> log (snd (m s)) = log s @ ms \<and>
            (\<forall>c e. (c, Some e) \<in> set cs \<longrightarrow> fst (m s) = Inl e)"
  then obtain cs ms where "calls (snd (m s)) = calls s @ cs" "log (snd (m s)) = log s @ ms"
    "\<forall>c e. (c, Some e) \<in> set cs \<longrightarrow> fst (m s) = Inl e" by blast
  then show "\<exists>cs ms. calls (snd (m s)) = calls s @ cs \<and> log (snd (m s)) = log s @ ms \<and>
       (\<forall>c e. (c, Some e) \<in> set cs \<longrightarrow>
          (case fst (m s) of Inl e' \<Rightarrow> e' = e | Inr a \<Rightarrow> F a \<and> (\<exists>k \<in> K. k (str e) \<in> set ms)))"
    by (intro exI [of _ cs] exI [of _ ms]) auto
qed

lemma contained_andthen:
  assumes m: "contained F1 K m"
      and k: "\<And>a. contained F2 K (k a)"
      and marked: "\<And>a s. F1 a \<Longrightarrow> \<exists>v. fst (k a s) = Inr v \<and> F2 v"
  shows "contained F2 K (andthen m k)"
  unfolding contained_def
proof
  fix s
  from m obtain cs1 ms1 where m1: "calls (snd (m s)) = calls s @ cs1" "log (snd (m s)) = log s @ ms1"
    and m2: "\<And>c e. (c, Some e) \<in> set cs1 \<Longrightarrow>
          (case fst (m s) of Inl e' \<Rightarrow> e' = e | Inr a \<Rightarrow> F1 a \<and> (\<exists>k \<in> K. k (str e) \<in> set ms1))"
    unfolding contained_def by blast
  obtain r s1 where ms: "m s = (r, s1)" by (cases "m s")
  show "\<exists>cs ms. calls (snd (andthen m k s)) = calls s @ cs \<and> log (snd (andthen m k s)) = log s @ ms \<and>
       (\<forall>c e. (c, Some e) \<in> set cs \<longrightarrow>
          (case fst (andthen m k s) of Inl e' \<Rightarrow> e' = e
           | Inr a \<Rightarrow> F2 a \<and> (\<exists>k \<in> K. k (str e) \<in> set ms)))"
  proof (cases r)
    case (Inl e')
    with ms m1 m2 show ?thesis
      by (intro exI [of _ cs1] exI [of _ ms1]) (auto simp: andthen_def)
  next
    case (Inr a)
    from k [of a] obtain cs2 ms2 where k1: "calls (snd (k a s1)) = calls s1 @ cs2"
      "log (snd (k a s1)) = log s1 @ ms2"
      and k2: "\<And>c e. (c, Some e) \<in> set cs2 \<Longrightarrow>
          (case fst (k a s1) of Inl e' \<Rightarrow> e' = e | Inr v \<Rightarrow> F2 v \<and> (\<exists>k \<in> K. k (str e) \<in> set ms2))"
      unfolding contained_def by blast
    have eq: "andthen m k s = k a s1" using ms Inr by (simp add: andthen_def)
    have "case fst (k a s1) of Inl e' \<Rightarrow> e' = e
          | Inr v \<Rightarrow> F2 v \<and> (\<exists>k \<in> K. k (str e) \<in> set (ms1 @ ms2))"
      if mem: "(c, Some e) \<in> set (cs1 @ cs2)" for c e
    proof (cases "(c, Some e) \<in> set cs1")
      case True
      from m2 [OF True] ms Inr have fa: "F1 a" and lg: "\<exists>k \<in> K. k (str e) \<in> set ms1" by auto
      from marked [OF fa, of s1] obtain v where "fst (k a s1) = Inr v" "F2 v" by blast
      with lg show ?thesis by auto
    next
      case False
      with mem have "(c, Some e) \<in> set cs2" by simp
      from k2 [OF this] show ?thesis by (auto split: sum.splits)
    qed
    with m1 k1 ms show ?thesis
      unfolding eq by (intro exI [of _ "cs1 @ cs2"] exI [of _ "ms1 @ ms2"]) simp
  qed
qed

lemma contained_state_if:
  "contained F K a \<Longrightarrow> contained F K b \<Longrightarrow> contained F K (\<lambda>s. if c s then a s else b s)"
  by (simp add: contained_def)

lemma catches_try:
  assumes "contained (\<lambda>a. a = failure) K body" and "msg \<in> K"
  shows "catches failure K (try_except body msg failure)"
  unfolding catches_def
proof (intro allI impI)
  fix s c e
  assume mem: "(c, Some e) \<in> set (new_calls s (snd (try_except body msg failure s)))"
  from assms(1) obtain cs ms where b1: "calls (snd (body s)) = calls s @ cs"
      "log (snd (body s)) = log s @ ms"
    and b2: "\<And>c e. (c, Some e) \<in> set cs \<Longrightarrow>
          (case fst (body s) of Inl e' \<Rightarrow> e' = e
           | Inr a \<Rightarrow> a = failure \<and> (\<exists>k \<in> K. k (str e) \<in> set ms))"
    unfolding contained_def by blast
  obtain r s1 where bs: "body s = (r, s1)" by (cases "body s")
  show "fst (try_except body msg failure s) = failure \<and>
        (\<exists>k \<in> K. k (str e) \<in> set (new_log s (snd (try_except body msg failure s))))"
  proof (cases r)
    case (Inl e')
    with bs b1 mem have "(c, Some e) \<in> set cs" by (simp add: try_except_def new_calls_def)
    from b2 [OF this] bs Inl have "e' = e" by simp
    with bs Inl b1 assms(2) show ?thesis by (auto simp: try_except_def new_log_def)
  next
    case (Inr a)
    with bs b1 mem have "(c, Some e) \<in> set cs" by (simp add: try_except_def new_calls_def)
    from b2 [OF this] bs Inr have "a = failure" "\<exists>k \<in> K. k (str e) \<in> set ms" by auto
    with bs Inr b1 show ?thesis by (auto simp: try_except_def new_log_def)
  qed
qed

lemma catches_trouver: "catches None {FindError} (trouver_dossier_par_nom E nom)"
  unfolding trouver_dossier_par_nom_def
  by (rule catches_try, rule contained_tracked)
     (auto intro!: tracked_andthen tracked_files_list tracked_ret split: list.split)

lemma contained_trouver:
  assumes "FindError \<in> K"
  shows "contained (\<lambda>d. d = None) K (total (trouver_dossier_par_nom E nom))"
  unfolding contained_def
proof
  fix s
  obtain d s1 where tr: "trouver_dossier_par_nom E nom s = (d, s1)"
    by (cases "trouver_dossier_par_nom E nom s")
  then have tf: "total (trouver_dossier_par_nom E nom) s = (Inr d, s1)"
    by (simp add: total_def)
  have "\<exists>cs ms. calls s1 = calls s @ cs \<and> log s1 = log s @ ms \<and>
          (\<forall>c e. (c, Some e) \<in> set cs \<longrightarrow> d = None \<and> (\<exists>k \<in> K. k (str e) \<in> set ms))"
    using trouver_cases(1) [OF tr]
  proof (elim disjE exE conjE)
    fix e
    assume "d = None" "calls s1 = calls s @ [(FilesList (folder_query nom), Some e)]"
      "log s1 = log s @ [FindError (str e)]"
    with assms show ?thesis
      by (intro exI [of _ "[(FilesList (folder_query nom), Some e)]"]
            exI [of _ "[FindError (str e)]"]) auto
  next
    fix items
    assume "calls s1 = calls s @ [(FilesList (folder_query nom), None)]" "log s1 = log s"
    then show ?thesis
      by (intro exI [of _ "[(FilesList (folder_query nom), None)]"] exI [of _ "[]"]) simp
  qed
  then show "\<exists>cs ms. calls (snd (total (trouver_dossier_par_nom E nom) s)) = calls s @ cs
          \<and> log (snd (total (trouver_dossier_par_nom E nom) s)) = log s @ ms \<and>
       (\<forall>c e. (c, Some e) \<in> set cs \<longrightarrow>
          (case fst (total (trouver_dossier_par_nom E nom) s) of Inl e' \<Rightarrow> e' = e
           | Inr a \<Rightarrow> a = None \<and> (\<exists>k \<in> K. k (str e) \<in> set ms)))"
    by (simp add: tf)
qed

lemma catches_lister: "catches [] {ListError, FindError} (lister_fichiers E d nom)"
  unfolding lister_fichiers_def
proof (rule catches_try)
  let ?K = "{ListError, FindError}"
  have req: "contained (\<lambda>a. a = []) ?K (lister_requete E x)" for x
    by (rule contained_tracked, rule tracked_lister_requete)
  have resolve: "contained (\<lambda>a. a = []) ?K
      (andthen (total (trouver_dossier_par_nom E n))
         (\<lambda>found. if \<not> truthy found then andthen (print (FolderNotFound n)) (\<lambda>_. ret [])
                   else lister_requete E found))" for n
  proof (rule contained_andthen [where ?F1.0 = "\<lambda>d. d = None"])
    show "contained (\<lambda>d. d = None) ?K (total (trouver_dossier_par_nom E n))"
      by (rule contained_trouver) simp
  next
    fix a
    show "contained (\<lambda>a. a = []) ?K
            (if \<not> truthy a then andthen (print (FolderNotFound n)) (\<lambda>_. ret [])
             else lister_requete E a)"
      by (rule contained_tracked)
         (auto intro!: tracked_andthen tracked_print tracked_ret tracked_lister_requete)
  next
    fix a :: "string option" and s
    assume "a = None"
    then show "\<exists>v. fst ((if \<not> truthy a then andthen (print (FolderNotFound n)) (\<lambda>_. ret [])
                          else lister_requete E a) s) = Inr v \<and> v = []"
      by (simp add: andthen_def print_def ret_def)
  qed
  show "contained (\<lambda>a. a = []) ?K
     (case nom of
        None \<Rightarrow> lister_requete E d
      | Some nom \<Rightarrow>
          if nom \<noteq> [] \<and> \<not> truthy d
          then andthen (total (trouver_dossier_par_nom E nom))
                 (\<lambda>found. if \<not> truthy found
                           then andthen (print (FolderNotFound nom)) (\<lambda>_. ret [])
                           else lister_requete E found)
          else lister_requete E d)"
    using req resolve by (cases nom) auto
qed simp

lemma tracked_upload_tail:
  "tracked (andthen (read_file chemin)
      (\<lambda>data. andthen (print (Uploading nom_fichier))
      (\<lambda>_. andthen (files_create E nom_fichier None ps (Some (mime data, data)))
      (\<lambda>file_id. andthen (print (Uploaded file_id))
      (\<lambda>_. ret file_id)))))"
  by (intro tracked_andthen tracked_read_file tracked_print tracked_files_create tracked_ret)

lemma catches_uploader: "catches None {UploadError, FindError} (uploader_fichier E chemin d nom)"
  unfolding uploader_fichier_def
proof (rule catches_try)
  let ?K = "{UploadError, FindError}"
  let ?F = "\<lambda>a :: string option. a = None"
  have resolve: "contained (\<lambda>r. r = None) ?K
      (andthen (total (trouver_dossier_par_nom E n))
         (\<lambda>found. if \<not> truthy found
                   then andthen (print (FolderNotFound n)) (\<lambda>_. ret None)
                   else ret (Some found)))" for n
  proof (rule contained_andthen [where ?F1.0 = "\<lambda>d. d = None"])
    show "contained (\<lambda>d. d = None) ?K (total (trouver_dossier_par_nom E n))"
      by (rule contained_trouver) simp
  next
    fix a
    show "contained (\<lambda>r. r = None) ?K
            (if \<not> truthy a then andthen (print (FolderNotFound n)) (\<lambda>_. ret None)
             else ret (Some a))"
      by (rule contained_tracked) (auto intro!: tracked_andthen tracked_print tracked_ret)
  next
    fix a :: "string option" and s
    assume "a = None"
    then show "\<exists>v. fst ((if \<not> truthy a
                           then andthen (print (FolderNotFound n)) (\<lambda>_. ret None)
                           else ret (Some a)) s) = Inr v \<and> v = None"
      by (simp add: andthen_def print_def ret_def)
  qed
  have folder: "contained (\<lambda>r. r = None) ?K
     (case nom of
        None \<Rightarrow> ret (Some d)
      | Some nom \<Rightarrow>
          if nom \<noteq> [] \<and> \<not> truthy d
          then andthen (total (trouver_dossier_par_nom E nom))
                 (\<lambda>found. if \<not> truthy found
                           then andthen (print (FolderNotFound nom)) (\<lambda>_. ret None)
                           else ret (Some found))
          else ret (Some d))"
    using resolve by (cases nom) (auto intro!: contained_tracked tracked_ret)
  have rest: "contained ?F ?K
     (andthen
        (case nom of
           None \<Rightarrow> ret (Some d)
         | Some nom \<Rightarrow>
             if nom \<noteq> [] \<and> \<not> truthy d
             then andthen (total (trouver_dossier_par_nom E nom))
                    (\<lambda>found. if \<not> truthy found
                              then andthen (print (FolderNotFound nom)) (\<lambda>_. ret None)
                              else ret (Some found))
             else ret (Some d))
        (\<lambda>resolved.
           case resolved of
             None \<Rightarrow> ret None
           | Some dossier \<Rightarrow>
               (let nom_fichier = basename chemin in
                andthen (read_file chemin)
                (\<lambda>data. andthen (print (Uploading nom_fichier))
                (\<lambda>_. andthen
                       (files_create E nom_fichier None (parents_of dossier)
                          (Some (guess_mime E chemin, data)))
                (\<lambda>file_id. andthen (print (Uploaded file_id))
                (\<lambda>_. ret file_id)))))))"
  proof (rule contained_andthen [OF folder])
    fix a :: "string option option"
    show "contained ?F ?K
            (case a of
               None \<Rightarrow> ret None
             | Some dossier \<Rightarrow>
                 (let nom_fichier = basename chemin in
                  andthen (read_file chemin)
                  (\<lambda>data. andthen (print (Uploading nom_fichier))
                  (\<lambda>_. andthen
                         (files_create E nom_fichier None (parents_of dossier)
                            (Some (guess_mime E chemin, data)))
                  (\<lambda>file_id. andthen (print (Uploaded file_id))
                  (\<lambda>_. ret file_id))))))"
      by (rule contained_tracked)
         (cases a; simp add: Let_def tracked_ret tracked_upload_tail [where mime = "\<lambda>_. guess_mime E chemin"])
  next
    fix a :: "string option option" and s
    assume "a = None"
    then show "\<exists>v. fst ((case a of
               None \<Rightarrow> ret None
             | Some dossier \<Rightarrow>
                 (let nom_fichier = basename chemin in
                  andthen (read_file chemin)
                  (\<lambda>data. andthen (print (Uploading nom_fichier))
                  (\<lambda>_. andthen
                         (files_create E nom_fichier None (parents_of dossier)
                            (Some (guess_mime E chemin, data)))
                  (\<lambda>file_id. andthen (print (Uploaded file_id))
                  (\<lambda>_. ret file_id)))))) s) = Inr v \<and> v = None"
      by (simp add: ret_def)
  qed
  have miss: "contained ?F ?K (andthen (print (LocalNotFound chemin)) (\<lambda>_. ret None))"
    by (rule contained_tracked) (intro tracked_andthen tracked_print tracked_ret)
  from contained_state_if [OF miss rest, of "\<lambda>s. \<not> exists_path s chemin"]
  show "contained ?F ?K
     (\<lambda>s. if \<not> exists_path s chemin
          then andthen (print (LocalNotFound chemin)) (\<lambda>_. ret None) s
          else andthen
                 (case nom of
                    None \<Rightarrow> ret (Some d)
                  | Some nom \<Rightarrow>
                      if nom \<noteq> [] \<and> \<not> truthy d
                      then andthen (total (trouver_dossier_par_nom E nom))
                             (\<lambda>found. if \<not> truthy found
                                       then andthen (print (FolderNotFound nom)) (\<lambda>_. ret None)
                                       else ret (Some found))
                      else ret (Some d))
                 (\<lambda>resolved.
                    case resolved of
                      None \<Rightarrow> ret None
                    | Some dossier \<Rightarrow>
                        (let nom_fichier = basename chemin in
                         andthen (read_file chemin)
                         (\<lambda>data. andthen (print (Uploading nom_fichier))
                         (\<lambda>_. andthen
                                (files_create E nom_fichier None (parents_of dossier)
                                   (Some (guess_mime E chemin, data)))
                         (\<lambda>file_id. andthen (print (Uploaded file_id))
                         (\<lambda>_. ret file_id)))))) s)"
    by simp
qed simp

lemma tracked_export_branch:
  "tracked (andthen (print (DocsDetected em))
     (\<lambda>_. andthen (export_media E fid em)
     (\<lambda>content. andthen (write_file E nom' content)
     (\<lambda>_. andthen (print (DocsExported nom'))
     (\<lambda>_. ret True)))))"
  by (intro tracked_andthen tracked_print tracked_export_media tracked_write_file tracked_ret)

lemma tracked_binary_branch:
  "tracked (andthen (print BinaryDetected)
     (\<lambda>_. andthen
            (\<lambda>s. download_loop fid
                   (length (concat (media_chunks E (store s) fid)))
                   (media_chunks E (store s) fid) [] s)
     (\<lambda>data. andthen (write_file E nom data)
     (\<lambda>_. andthen (print (Downloaded nom))
     (\<lambda>_. ret True)))))"
proof -
  have "tracked (\<lambda>s. (case (length (concat (media_chunks E (store s) fid)),
                                media_chunks E (store s) fid) of
                        (n, cs) \<Rightarrow> download_loop fid n cs []) s)"
    by (rule tracked_state) (auto intro: tracked_download_loop)
  then have "tracked (\<lambda>s. download_loop fid
                   (length (concat (media_chunks E (store s) fid)))
                   (media_chunks E (store s) fid) [] s)"
    by simp
  then show ?thesis
    by (intro tracked_andthen tracked_print tracked_write_file tracked_ret)
qed

lemma tracked_telecharger_body:
  "tracked (andthen (files_get fichier_id)
       (\<lambda>file_metadata.
          let mime_type = meta_mimeType file_metadata;
              nom = or_else nom_fichier_local (meta_name file_metadata)
          in
          andthen (print (Downloading (meta_name file_metadata)))
       (\<lambda>_. andthen (print (MimeInfo mime_type))
       (\<lambda>_.
          case map_of google_docs_types mime_type of
            Some default_export \<Rightarrow>
              (let export_mime_type = or_else format_export default_export;
                   nom' = ajouter_extension nom export_mime_type
               in
               andthen (print (DocsDetected export_mime_type))
               (\<lambda>_. andthen (export_media E fichier_id export_mime_type)
               (\<lambda>content. andthen (write_file E nom' content)
               (\<lambda>_. andthen (print (DocsExported nom'))
               (\<lambda>_. ret True)))))
          | None \<Rightarrow>
              andthen (print BinaryDetected)
              (\<lambda>_. andthen
                     (\<lambda>s. download_loop fichier_id
                            (length (concat (media_chunks E (store s) fichier_id)))
                            (media_chunks E (store s) fichier_id) [] s)
              (\<lambda>data. andthen (write_file E nom data)
              (\<lambda>_. andthen (print (Downloaded nom))
              (\<lambda>_. ret True))))))))"
  apply (rule tracked_andthen [OF tracked_files_get])
  apply (simp only: Let_def)
  apply (intro tracked_andthen tracked_print)
  apply (simp add: tracked_export_branch tracked_binary_branch split: option.split)
  done

lemma all_or_nothing_andthen:
  assumes "quiet m" and "\<And>a. all_or_nothing (k a)"
  shows "all_or_nothing (andthen m k)"
  unfolding all_or_nothing_def
proof
  fix s
  obtain r s1 where ms: "m s = (r, s1)" by (cases "m s")
  from assms(1) ms have f1: "fs s1 = fs s" by (auto simp: quiet_def dest: spec [of _ s])
  show "fst (andthen m k s) = Inr True \<or> fs (snd (andthen m k s)) = fs s"
  proof (cases r)
    case (Inl e)
    with ms f1 show ?thesis by (simp add: andthen_def)
  next
    case (Inr a)
    from assms(2) [of a] have "fst (k a s1) = Inr True \<or> fs (snd (k a s1)) = fs s1"
      by (simp add: all_or_nothing_def)
    with ms Inr f1 show ?thesis by (simp add: andthen_def)
  qed
qed

lemma all_or_nothing_write:
  "all_or_nothing (andthen (write_file E p d) (\<lambda>_. andthen (print m) (\<lambda>_. ret True)))"
  by (simp add: all_or_nothing_def andthen_def write_file_def print_def ret_def)

lemma all_or_nothing_telecharger_body:
  "all_or_nothing (andthen (files_get fichier_id)
       (\<lambda>file_metadata.
          let mime_type = meta_mimeType file_metadata;
              nom = or_else nom_fichier_local (meta_name file_metadata)
          in
          andthen (print (Downloading (meta_name file_metadata)))
       (\<lambda>_. andthen (print (MimeInfo mime_type))
       (\<lambda>_.
          case map_of google_docs_types mime_type of
            Some default_export \<Rightarrow>
              (let export_mime_type = or_else format_export default_export;
                   nom' = ajouter_extension nom export_mime_type
               in
               andthen (print (DocsDetected export_mime_type))
               (\<lambda>_. andthen (export_media E fichier_id export_mime_type)
               (\<lambda>content. andthen (write_file E nom' content)
               (\<lambda>_. andthen (print (DocsExported nom'))
               (\<lambda>_. ret True)))))
          | None \<Rightarrow>
              andthen (print BinaryDetected)
              (\<lambda>_. andthen
                     (\<lambda>s. download_loop fichier_id
                            (length (concat (media_chunks E (store s) fichier_id)))
                            (media_chunks E (store s) fichier_id) [] s)
              (\<lambda>data. andthen (write_file E nom data)
              (\<lambda>_. andthen (print (Downloaded nom))
              (\<lambda>_. ret True))))))))"
proof -
  have loop: "quiet (\<lambda>s. download_loop fichier_id
                   (length (concat (media_chunks E (store s) fichier_id)))
                   (media_chunks E (store s) fichier_id) [] s)"
  proof -
    have "quiet (\<lambda>s. (case (length (concat (media_chunks E (store s) fichier_id)),
                                media_chunks E (store s) fichier_id) of
                        (n, cs) \<Rightarrow> download_loop fichier_id n cs []) s)"
      by (rule quiet_state) (auto intro: quiet_download_loop)
    then show ?thesis by simp
  qed
  have export: "all_or_nothing (andthen (print (DocsDetected em))
     (\<lambda>_. andthen (export_media E fichier_id em)
     (\<lambda>content. andthen (write_file E nom' content)
     (\<lambda>_. andthen (print (DocsExported nom'))
     (\<lambda>_. ret True)))))" for em nom'
    by (intro all_or_nothing_andthen quiet_print quiet_export_media all_or_nothing_write)
  have binary: "all_or_nothing (andthen (print BinaryDetected)
     (\<lambda>_. andthen
            (\<lambda>s. download_loop fichier_id
                   (length (concat (media_chunks E (store s) fichier_id)))
                   (media_chunks E (store s) fichier_id) [] s)
     (\<lambda>data. andthen (write_file E nom data)
     (\<lambda>_. andthen (print (Downloaded nom))
     (\<lambda>_. ret True)))))" for nom
    by (intro all_or_nothing_andthen quiet_print loop all_or_nothing_write)
  show ?thesis
    apply (rule all_or_nothing_andthen [OF quiet_files_get])
    apply (simp only: Let_def)
    apply (intro all_or_nothing_andthen quiet_print)
    apply (simp add: export binary split: option.split)
    done
qed

lemma catches_telecharger:
  "catches False {DownloadError} (telecharger_fichier E fichier_id nom_fichier_local format_export)"
  unfolding telecharger_fichier_def
  by (rule catches_try, rule contained_tracked, rule tracked_telecharger_body) simp

lemma catches_obtenir: "catches [] {FormatsError} (obtenir_formats_export E fichier_id)"
  unfolding obtenir_formats_export_def
  by (rule catches_try, rule contained_tracked)
     (auto intro!: tracked_andthen tracked_files_get tracked_print tracked_print_formats
        tracked_ret split: option.split)

lemma catches_creer: "catches None {CreateError} (creer_dossier E nom_dossier dossier_parent_id)"
  unfolding creer_dossier_def
  by (rule catches_try, rule contained_tracked)
     (auto intro!: tracked_andthen tracked_files_create tracked_print tracked_ret)

lemma telecharger_untouched:
  assumes "\<not> fst (telecharger_fichier E fichier_id nom_fichier_local format_export s)"
  shows "fs (snd (telecharger_fichier E fichier_id nom_fichier_local format_export s)) = fs s"
proof -
  let ?body = "andthen (files_get fichier_id)
       (\<lambda>file_metadata.
          let mime_type = meta_mimeType file_metadata;
              nom = or_else nom_fichier_local (meta_name file_metadata)
          in
          andthen (print (Downloading (meta_name file_metadata)))
       (\<lambda>_. andthen (print (MimeInfo mime_type))
       (\<lambda>_.
          case map_of google_docs_types mime_type of
            Some default_export \<Rightarrow>
              (let export_mime_type = or_else format_export default_export;
                   nom' = ajouter_extension nom export_mime_type
               in
               andthen (print (DocsDetected export_mime_type))
               (\<lambda>_. andthen (export_media E fichier_id export_mime_type)
               (\<lambda>content. andthen (write_file E nom' content)
               (\<lambda>_. andthen (print (DocsExported nom'))
               (\<lambda>_. ret True)))))
          | None \<Rightarrow>
              andthen (print BinaryDetected)
              (\<lambda>_. andthen
                     (\<lambda>s. download_loop fichier_id
                            (length (concat (media_chunks E (store s) fichier_id)))
                            (media_chunks E (store s) fichier_id) [] s)
              (\<lambda>data. andthen (write_file E nom data)
              (\<lambda>_. andthen (print (Downloaded nom))
              (\<lambda>_. ret True)))))))"
  have tf: "telecharger_fichier E fichier_id nom_fichier_local format_export s
              = try_except ?body DownloadError False s"
    by (simp add: telecharger_fichier_def)
  obtain r s1 where b: "?body s = (r, s1)" by (cases "?body s")
  have "all_or_nothing ?body" by (rule all_or_nothing_telecharger_body)
  with b have "r = Inr True \<or> fs s1 = fs s"
    unfolding all_or_nothing_def by (auto dest: spec [of _ s])
  with assms b show ?thesis
    unfolding tf by (cases r) (auto simp: try_except_def)
qed


lemma rpc_pass:
  "faults s = None # rest \<Longrightarrow>
   rpc c sem s =
     (case sem (s\<lparr>faults := rest\<rparr>) of
        Inl e \<Rightarrow> (Inl e, s\<lparr>faults := rest, calls := calls s @ [(c, Some e)]\<rparr>)
      | Inr (a, s1) \<Rightarrow> (Inr a, s1\<lparr>calls := calls s1 @ [(c, None)]\<rparr>))"
  by (simp add: rpc_def Let_def split: sum.split)

lemma concat_split_chunks: "concat (split_chunks n xs) = xs"
  by (induction n xs rule: split_chunks.induct) (subst split_chunks.simps, simp)

lemma next_chunk_reliable:
  assumes "reliable s" and "lookup (store s) fid = Some r"
  shows "next_chunk fid c s
           = (Inr c, s\<lparr>faults := tl (faults s), calls := calls s @ [(GetMedia fid, None)]\<rparr>)"
  using assms by (simp add: next_chunk_def rpc_reliable)

lemma download_loop_reliable:
  assumes "reliable s" and "lookup (store s) fid = Some r"
  shows "\<exists>s'. download_loop fid n cs fh s = (Inr (fh @ concat cs), s')
              \<and> fs s' = fs s \<and> store s' = store s \<and> reliable s'"
  using assms
proof (induction cs arbitrary: fh s)
  case Nil
  then show ?case by (simp add: ret_def)
next
  case (Cons c cs)
  let ?s1 = "s\<lparr>faults := tl (faults s), calls := calls s @ [(GetMedia fid, None)],
               log := log s @ [Progress (length (fh @ c)) n]\<rparr>"
  from Cons.prems have r1: "reliable ?s1" by simp
  from Cons.prems have l1: "lookup (store ?s1) fid = Some r" by simp
  from Cons.IH [OF r1 l1, of "fh @ c"] obtain s' where
    "download_loop fid n cs (fh @ c) ?s1 = (Inr ((fh @ c) @ concat cs), s')"
    "fs s' = fs ?s1" "store s' = store ?s1" "reliable s'" by blast
  with Cons.prems show ?case
    by (simp add: andthen_def next_chunk_reliable print_def)
qed

lemma telecharger_binary_run:
  assumes "reliable s" and "lookup (store s) fid = Some r"
      and "map_of google_docs_types (mimeType r) = None"
      and "writable E (or_else nom (file_name r))"
  shows "\<exists>s'. telecharger_fichier E fid nom fmt s = (True, s')
              \<and> fs s' = (fs s)(or_else nom (file_name r) \<mapsto> content r)
              \<and> store s' = store s"
proof -
  let ?s1 = "s\<lparr>faults := tl (faults s), calls := calls s @ [(FilesGet fid, None)],
               log := log s @ [Downloading (file_name r), MimeInfo (mimeType r), BinaryDetected]\<rparr>"
  from assms have r1: "reliable ?s1" by simp
  from assms have l1: "lookup (store ?s1) fid = Some r" by simp
  have chunks: "media_chunks E (store ?s1) fid = split_chunks (chunk_size E) (content r)"
    using assms(2) by (simp add: media_chunks_def)
  from download_loop_reliable [OF r1 l1, of "length (content r)"
         "split_chunks (chunk_size E) (content r)" "[]"]
  obtain s2 where loop: "download_loop fid (length (content r))
        (split_chunks (chunk_size E) (content r)) [] ?s1 = (Inr (content r), s2)"
    and s2: "fs s2 = fs s" "store s2 = store s"
    by (auto simp: concat_split_chunks)
  have "telecharger_fichier E fid nom fmt s
          = (True, s2\<lparr>fs := (fs s2)(or_else nom (file_name r) \<mapsto> content r),
                       log := log s2 @ [Downloaded (or_else nom (file_name r))]\<rparr>)"
    using assms loop chunks
    by (simp add: telecharger_fichier_def try_except_def andthen_def files_get_reliable
          print_def ret_def write_file_def Let_def concat_split_chunks)
  with s2 show ?thesis by simp
qed

lemma lookup_fresh:
  assumes "file_id r \<notin> file_id ` set rs"
  shows "lookup (rs @ [r]) (file_id r) = Some r"
  using assms by (induction rs) (auto simp: lookup_def)

lemma files_create_reliable:
  assumes "reliable s"
  shows "files_create E name mime ps (Some (mt, data)) s
           = (Inr (Some (fresh_id E (store s))),
              s\<lparr>faults := tl (faults s),
                store := store s @
                  [\<lparr>file_id = fresh_id E (store s), file_name = name,
                    mimeType = (case mime of Some m \<Rightarrow> m | None \<Rightarrow> mt),
                    parents = (case ps of Some p \<Rightarrow> p | None \<Rightarrow> []),
                    trashed = False, file_size = Some (length data),
                    createdTime = Some (now E), content = data\<rparr>],
                calls := calls s @ [(FilesCreate name mime ps (Some data), None)]\<rparr>)"
  using assms by (cases mime) (simp_all add: files_create_def rpc_reliable Let_def)

lemma reliable_after:
  "reliable s \<Longrightarrow> faults s' = tl (faults s) \<Longrightarrow> reliable s'"
  by (cases "faults s") (auto simp: reliable_def)

lemma uploader_run:
  assumes "reliable s" and "fs s chemin = Some data"
  shows "\<exists>s'. uploader_fichier E chemin dossier None s = (Some (fresh_id E (store s)), s')
              \<and> store s' = store s @
                    [\<lparr>file_id = fresh_id E (store s), file_name = basename chemin,
                      mimeType = guess_mime E chemin,
                      parents = (case parents_of dossier of Some p \<Rightarrow> p | None \<Rightarrow> []),
                      trashed = False, file_size = Some (length data),
                      createdTime = Some (now E), content = data\<rparr>]
              \<and> fs s' = fs s \<and> reliable s'"
proof -
  let ?r = "\<lparr>file_id = fresh_id E (store s), file_name = basename chemin,
             mimeType = guess_mime E chemin,
             parents = (case parents_of dossier of Some p \<Rightarrow> p | None \<Rightarrow> []),
             trashed = False, file_size = Some (length data),
             createdTime = Some (now E), content = data\<rparr>"
  let ?s' = "s\<lparr>faults := tl (faults s), store := store s @ [?r],
               calls := calls s @ [(FilesCreate (basename chemin) None (parents_of dossier)
                                      (Some data), None)],
               log := log s @ [Uploading (basename chemin),
                               Uploaded (Some (fresh_id E (store s)))]\<rparr>"
  have run: "uploader_fichier E chemin dossier None s = (Some (fresh_id E (store s)), ?s')"
    using assms
    by (simp add: uploader_fichier_def try_except_def exists_path_def andthen_def ret_def
          read_file_def print_def files_create_reliable Let_def)
  have "reliable ?s'" by (rule reliable_after [OF assms(1)]) simp
  with run show ?thesis by simp
qed

lemma lister_requete_calls:
  "\<exists>outcome. calls (snd (lister_requete E d s)) = calls s @ [(FilesList (list_query d), outcome)]"
proof -
  obtain r1 s1 where fl: "files_list E (list_query d) s = (r1, s1)"
    by (cases "files_list E (list_query d) s")
  from files_list_cases(1) [OF fl] show ?thesis
  proof (elim disjE exE conjE)
    fix e
    assume "r1 = Inl e" "calls s1 = calls s @ [(FilesList (list_query d), Some e)]"
    with fl show ?thesis by (simp add: lister_requete_def andthen_def)
  next
    fix items
    assume "r1 = Inr items" "calls s1 = calls s @ [(FilesList (list_query d), None)]"
    with fl show ?thesis
      by (cases "items = []")
         (simp_all add: lister_requete_def andthen_def print_def ret_def print_items_run)
  qed
qed

lemma try_except_calls: "calls (snd (try_except body msg failure s)) = calls (snd (body s))"
  by (cases "body s") (auto simp: try_except_def split: sum.split)



section \<open>Facts about the small store\<close>

lemma demo_reliable: "reliable demo_state"
  by (simp add: reliable_def demo_state_def)

lemma demo_page_size: "page_size demo_env = 100"
  by (simp add: demo_env_def)

lemma demo_interp_reports:
  "interp demo_env (folder_query ''Reports'')
     = Some (\<lambda>r. file_name r = ''Reports'' \<and> mimeType r = folder_mime \<and> \<not> trashed r)"
  by (simp add: demo_env_def folder_query_def parents_query_def folder_mime_def)

lemma demo_response_reports:
  "list_response demo_env (folder_query ''Reports'') (store demo_state)
     = Inr [to_item demo_folder]"
  by (simp add: list_response_def demo_interp_reports demo_page_size demo_state_def
        demo_store_def demo_folder_def demo_trashed_def demo_doc_def demo_bin_def
        folder_mime_def)

lemma trouver_reliable:
  assumes "reliable s"
      and "list_response E (folder_query nom_dossier) (store s) = Inr items"
  shows "trouver_dossier_par_nom E nom_dossier s
           = (case items of [] \<Rightarrow> None | it # _ \<Rightarrow> Some (item_id it),
              s\<lparr>faults := tl (faults s),
                calls := calls s @ [(FilesList (folder_query nom_dossier), None)]\<rparr>)"
  using assms
  by (simp add: trouver_dossier_par_nom_def try_except_def andthen_def files_list_def
        rpc_reliable ret_def split: list.split)

lemma demo_find_reports:
  "trouver_dossier_par_nom demo_env ''Reports'' demo_state
     = (Some ''F1'', demo_state\<lparr>faults := tl (faults demo_state),
          calls := calls demo_state @ [(FilesList (folder_query ''Reports''), None)]\<rparr>)"
  using trouver_reliable [OF demo_reliable demo_response_reports]
  by (simp add: to_item_def demo_folder_def)

lemma demo_interp_children:
  "interp demo_env (parents_query ''F1'')
     = Some (\<lambda>r. ''F1'' \<in> set (parents r) \<and> \<not> trashed r)"
  by (simp add: demo_env_def parents_query_def)

lemma demo_response_children:
  "list_response demo_env (list_query (Some ''F1'')) (store demo_state)
     = Inr [to_item demo_doc, to_item demo_bin]"
  by (simp add: list_response_def demo_interp_children demo_page_size demo_state_def
        demo_store_def demo_folder_def demo_trashed_def demo_doc_def demo_bin_def)

lemma demo_interp_all:
  "interp demo_env ''trashed=false'' = Some (\<lambda>r. \<not> trashed r)"
  by (simp add: demo_env_def)

lemma demo_response_all:
  "list_response demo_env (list_query (Some [])) (store demo_state)
     = Inr [to_item demo_folder, to_item demo_doc, to_item demo_bin]"
  by (simp add: list_response_def demo_interp_all demo_page_size demo_state_def
        demo_store_def demo_folder_def demo_trashed_def demo_doc_def demo_bin_def)

lemma demo_interp_empty_name:
  "interp demo_env (folder_query [])
     = Some (\<lambda>r. file_name r = [] \<and> mimeType r = folder_mime \<and> \<not> trashed r)"
  by (simp add: demo_env_def folder_query_def parents_query_def folder_mime_def)

lemma demo_response_empty_name:
  "list_response demo_env (folder_query []) (store demo_state) = Inr []"
  by (simp add: list_response_def demo_interp_empty_name demo_page_size demo_state_def
        demo_store_def demo_folder_def demo_trashed_def demo_doc_def demo_bin_def)

lemma demo_interp_missing:
  "interp demo_env (folder_query ''Missing'')
     = Some (\<lambda>r. file_name r = ''Missing'' \<and> mimeType r = folder_mime \<and> \<not> trashed r)"
  by (simp add: demo_env_def folder_query_def parents_query_def folder_mime_def)

lemma demo_response_missing:
  "list_response demo_env (folder_query ''Missing'') (store demo_state) = Inr []"
  by (simp add: list_response_def demo_interp_missing demo_page_size demo_state_def
        demo_store_def demo_folder_def demo_trashed_def demo_doc_def demo_bin_def)

lemma demo_doc_fields:
  "mimeType demo_doc = ''application/vnd.google-apps.document''"
  "file_name demo_doc = ''Plan.DOCX''"
  by (simp_all add: demo_doc_def)

lemma demo_export_as: "export_as demo_env r mt = Some (''exported:'' @ file_name r)"
  by (simp add: demo_env_def)

lemma demo_writable: "writable demo_env path = (path \<noteq> [])"
  by (simp add: demo_env_def)

lemma demo_plan_suffix: "endswith (lower ''Plan.DOCX'') ''.docx''"
  by (simp add: endswith_def lower_def lower_char_def)

lemma demo_download_doc:
  "fst (telecharger_fichier demo_env ''D1'' None None demo_state)"
proof -
  have "map_of google_docs_types (mimeType demo_doc)
          = Some ''application/vnd.openxmlformats-officedocument.wordprocessingml.document''"
    by (simp add: google_docs_types_def demo_doc_fields)
  from telecharger_export_run [OF demo_reliable lookup_demo_doc this, of demo_env None None]
  show ?thesis
    by (simp add: Let_def demo_export_as demo_writable demo_doc_fields ajouter_extension_def
          extensions_def)
qed

lemma demo_chunks: "media_chunks demo_env (store demo_state) ''B1'' = [''hell'', ''o wo'', ''rld'']"
  by (simp add: media_chunks_def lookup_demo_bin demo_bin_def demo_env_def split_chunks.simps)

lemma demo_flaky_download:
  "telecharger_fichier demo_env ''B1'' (Some ''copy.bin'') None demo_flaky
     = (False, demo_flaky\<lparr>faults := [],
          calls := [(FilesGet ''B1'', None), (GetMedia ''B1'', None),
                    (GetMedia ''B1'', Some (HttpError ''connection reset''))],
          log := [Downloading ''data.bin'', MimeInfo ''application/octet-stream'',
                  BinaryDetected, Progress 4 11, DownloadError ''connection reset'']\<rparr>)"
proof -
  have st: "store demo_flaky = store demo_state" by (simp add: demo_flaky_def)
  have lk: "lookup (store demo_state) ''B1'' = Some demo_bin" by (rule lookup_demo_bin)
  have mime: "map_of google_docs_types ''application/octet-stream'' = None"
    by (simp add: google_docs_types_def)
  have nm: "file_name demo_bin = ''data.bin''" "mimeType demo_bin = ''application/octet-stream''"
    by (simp_all add: demo_bin_def)
  have st': "store demo_state = demo_store" by (simp add: demo_state_def)
  show ?thesis
    unfolding telecharger_fichier_def try_except_def
    by (simp add: andthen_def files_get_def next_chunk_def rpc_def print_def ret_def Let_def
          demo_flaky_def demo_chunks [unfolded st'] lk [unfolded st'] mime nm demo_state_def)
qed

lemma demo_offline_list:
  "lister_fichiers demo_env (Some ''F1'') None demo_offline
     = ([], demo_offline\<lparr>faults := [],
          calls := [(FilesList (parents_query ''F1''), Some (HttpError ''timed out''))],
          log := [ListError ''timed out'']\<rparr>)"
  by (simp add: lister_fichiers_def try_except_def lister_requete_def andthen_def files_list_def
        rpc_def demo_offline_def demo_state_def)

lemma demo_pickle_three: "loads demo_pickle (dumps demo_pickle 3) = Some 3"
  by (simp add: demo_pickle_def numeral_3_eq_3)

lemma demo_temp_path: "temp_path demo_env name = ''/tmp/'' @ name"
  by (simp add: demo_env_def)

lemma demo_guess_mime: "guess_mime demo_env path = ''application/octet-stream''"
  by (simp add: demo_env_def)

lemma demo_fresh_id: "fresh_id demo_env (store demo_state) = ''NF1T1D1B1''"
  by (simp add: demo_env_def demo_state_def demo_store_def demo_folder_def demo_trashed_def
        demo_doc_def demo_bin_def)

lemma demo_ids: "file_id ` set (store demo_state) = {''F1'', ''T1'', ''D1'', ''B1''}"
  by (simp add: demo_state_def demo_store_def demo_folder_def demo_trashed_def
        demo_doc_def demo_bin_def)

lemma demo_interp_children_text:
  "interp demo_env ([CHR 0x27] @ ''F1'' @ [CHR 0x27] @ '' in parents and trashed=false'')
     = Some (\<lambda>r. ''F1'' \<in> set (parents r) \<and> \<not> trashed r)"
  using demo_interp_children by (simp add: parents_query_def)








section \<open>The claims\<close>

text \<open>
  C3.  \<open>uploader_fichier\<close> on a local path that does not exist returns \<open>None\<close>; it
  prints that the local file was not found and makes no remote call, whatever the other
  arguments are.
\<close>

theorem upload_missing_path:
  assumes "\<not> exists_path s chemin"
  shows "uploader_fichier E chemin dossier_id nom_dossier s
           = (None, s\<lparr>log := log s @ [LocalNotFound chemin]\<rparr>)
         \<and> new_calls s (snd (uploader_fichier E chemin dossier_id nom_dossier s)) = []"
  using assms
  by (simp add: uploader_fichier_def try_except_def andthen_def print_def ret_def new_calls_def)

theorem upload_missing_path_witness:
  "\<not> exists_path demo_state ''nowhere.txt''
   \<and> fst (uploader_fichier demo_env ''nowhere.txt'' (Some ''F1'') None demo_state) = None
   \<and> new_calls demo_state
         (snd (uploader_fichier demo_env ''nowhere.txt'' (Some ''F1'') None demo_state)) = []"
proof -
  have h: "\<not> exists_path demo_state ''nowhere.txt''"
    by (simp add: exists_path_def demo_state_def)
  from upload_missing_path [OF h, of demo_env "Some ''F1''" None] h show ?thesis
    by (simp add: new_calls_def)
qed



text \<open>
  C10.  The only remote call of \<open>trouver_dossier_par_nom\<close> is a listing whose query
  text restricts the name, the content type (folder) and the trashed flag (false).  When
  the service reads that text as the filter it spells, every identifier returned belongs
  to a record of the store that bears exactly that name, is a folder and is not trashed.
\<close>

theorem find_folder_only_live_folders:
  assumes "interp E (folder_query nom)
             = Some (\<lambda>r. file_name r = nom \<and> mimeType r = folder_mime \<and> \<not> trashed r)"
  shows "map fst (new_calls s (snd (trouver_dossier_par_nom E nom s)))
           = [FilesList (''name='' @ [CHR 0x27] @ nom @ [CHR 0x27]
                @ '' and mimeType='' @ [CHR 0x27] @ ''application/vnd.google-apps.folder''
                @ [CHR 0x27] @ '' and trashed=false'')]
         \<and> (\<forall>i. fst (trouver_dossier_par_nom E nom s) = Some i \<longrightarrow>
               (\<exists>r \<in> set (store s). file_id r = i \<and> file_name r = nom
                   \<and> mimeType r = ''application/vnd.google-apps.folder'' \<and> \<not> trashed r))"
proof (cases "trouver_dossier_par_nom E nom s")
  case (Pair r s')
  from trouver_cases(1) [OF Pair] show ?thesis
  proof (elim disjE exE conjE)
    fix e
    assume "r = None" "calls s' = calls s @ [(FilesList (folder_query nom), Some e)]"
    with Pair show ?thesis
      by (simp add: new_calls_def folder_query_def folder_mime_def)
  next
    fix items
    assume lr: "list_response E (folder_query nom) (store s) = Inr items"
      and r: "r = (case items of [] \<Rightarrow> None | it # _ \<Rightarrow> Some (item_id it))"
      and c: "calls s' = calls s @ [(FilesList (folder_query nom), None)]"
    have "\<exists>x \<in> set (store s). file_id x = i \<and> file_name x = nom
             \<and> mimeType x = folder_mime \<and> \<not> trashed x" if "r = Some i" for i
    proof -
      from that r obtain it rest where items: "items = it # rest" and i: "i = item_id it"
        by (cases items) auto
      from list_response_sound [OF assms lr, of it] items
      obtain x where "x \<in> set (store s)" "it = to_item x" "file_name x = nom"
        "mimeType x = folder_mime" "\<not> trashed x" by auto
      with i show ?thesis by (auto simp: to_item_def)
    qed
    with Pair c show ?thesis
      by (simp add: new_calls_def folder_query_def folder_mime_def)
  qed
qed



theorem find_folder_only_live_folders_witness:
  "interp demo_env (folder_query ''Reports'')
     = Some (\<lambda>r. file_name r = ''Reports'' \<and> mimeType r = folder_mime \<and> \<not> trashed r)
   \<and> fst (trouver_dossier_par_nom demo_env ''Reports'' demo_state) = Some ''F1''
   \<and> (\<exists>r \<in> set (store demo_state). file_id r = ''F1'' \<and> file_name r = ''Reports''
          \<and> mimeType r = ''application/vnd.google-apps.folder'' \<and> \<not> trashed r)"
proof -
  have found: "fst (trouver_dossier_par_nom demo_env ''Reports'' demo_state) = Some ''F1''"
    by (simp add: demo_find_reports)
  from find_folder_only_live_folders [OF demo_interp_reports, of demo_state]
  have "fst (trouver_dossier_par_nom demo_env ''Reports'' demo_state) = Some ''F1'' \<longrightarrow>
        (\<exists>r \<in> set (store demo_state). file_id r = ''F1'' \<and> file_name r = ''Reports''
          \<and> mimeType r = ''application/vnd.google-apps.folder'' \<and> \<not> trashed r)"
    by (elim conjE allE [of _ "''F1''"])
  with found demo_interp_reports show ?thesis by simp
qed

text \<open>
  C2.  For a non-empty folder identifier, \<open>lister_fichiers\<close> makes exactly one remote
  call, a listing whose query text is the identifier between single quotes followed by
  \<open> in parents and trashed=false\<close>, whatever folder name is passed along.  When the
  service reads that text as "this identifier is among the parents and the record is not
  trashed", every element returned is the projection of a record of the store that has
  the identifier among its parents and is not trashed.
\<close>

theorem list_only_children_not_trashed:
  assumes "dossier_id \<noteq> []"
      and "interp E ([CHR 0x27] @ dossier_id @ [CHR 0x27] @ '' in parents and trashed=false'')
             = Some (\<lambda>r. dossier_id \<in> set (parents r) \<and> \<not> trashed r)"
  shows "map fst (new_calls s (snd (lister_fichiers E (Some dossier_id) nom_dossier s)))
           = [FilesList ([CHR 0x27] @ dossier_id @ [CHR 0x27]
                @ '' in parents and trashed=false'')]
         \<and> (\<forall>it \<in> set (fst (lister_fichiers E (Some dossier_id) nom_dossier s)).
               \<exists>r \<in> set (store s).
                 it = to_item r \<and> dossier_id \<in> set (parents r) \<and> \<not> trashed r)"
proof
  have spelled: "[CHR 0x27] @ dossier_id @ [CHR 0x27] @ '' in parents and trashed=false''
                = parents_query dossier_id"
    by (simp add: parents_query_def)
  from assms(1) have q: "list_query (Some dossier_id) = parents_query dossier_id" by simp
  from assms(1) have body: "lister_fichiers E (Some dossier_id) nom_dossier s
      = try_except (lister_requete E (Some dossier_id)) ListError [] s"
    by (cases nom_dossier) (simp_all add: lister_fichiers_def try_except_def)
  from lister_requete_calls [of E "Some dossier_id" s] obtain outcome where
    sent: "calls (snd (lister_requete E (Some dossier_id) s))
             = calls s @ [(FilesList (parents_query dossier_id), outcome)]"
    unfolding q by blast
  show "map fst (new_calls s (snd (lister_fichiers E (Some dossier_id) nom_dossier s)))
           = [FilesList ([CHR 0x27] @ dossier_id @ [CHR 0x27]
                @ '' in parents and trashed=false'')]"
    unfolding body spelled by (simp add: try_except_calls new_calls_def sent)
  show "\<forall>it \<in> set (fst (lister_fichiers E (Some dossier_id) nom_dossier s)).
          \<exists>r \<in> set (store s). it = to_item r \<and> dossier_id \<in> set (parents r) \<and> \<not> trashed r"
  proof
    fix it
    assume it: "it \<in> set (fst (lister_fichiers E (Some dossier_id) nom_dossier s))"
    obtain r1 s1 where lr: "lister_requete E (Some dossier_id) s = (r1, s1)"
      by (cases "lister_requete E (Some dossier_id) s")
    show "\<exists>r \<in> set (store s). it = to_item r \<and> dossier_id \<in> set (parents r) \<and> \<not> trashed r"
    proof (cases r1)
      case (Inl e)
      with it body lr show ?thesis by (simp add: try_except_def)
    next
      case (Inr items)
      with it body lr have mem: "it \<in> set items" by (simp add: try_except_def)
      then have "items \<noteq> []" by auto
      with lister_requete_result [of E "Some dossier_id" s items s1] lr Inr q
      have "list_response E (parents_query dossier_id) (store s) = Inr items" by simp
      from list_response_sound [OF assms(2) [unfolded spelled] this mem] show ?thesis by simp
    qed
  qed
qed

theorem list_only_children_not_trashed_witness:
  "''F1'' \<noteq> []
   \<and> interp demo_env ([CHR 0x27] @ ''F1'' @ [CHR 0x27] @ '' in parents and trashed=false'')
       = Some (\<lambda>r. ''F1'' \<in> set (parents r) \<and> \<not> trashed r)
   \<and> map fst (new_calls demo_state
               (snd (lister_fichiers demo_env (Some ''F1'') None demo_state)))
       = [FilesList ([CHR 0x27] @ ''F1'' @ [CHR 0x27] @ '' in parents and trashed=false'')]
   \<and> to_item demo_bin \<in> set (fst (lister_fichiers demo_env (Some ''F1'') None demo_state))
   \<and> (\<exists>r \<in> set (store demo_state).
          to_item demo_bin = to_item r \<and> ''F1'' \<in> set (parents r) \<and> \<not> trashed r)"
proof -
  have ne: "''F1'' \<noteq> []" by simp
  have mem: "to_item demo_bin \<in> set (fst (lister_fichiers demo_env (Some ''F1'') None demo_state))"
    by (simp add: lister_fichiers_reliable [OF demo_reliable demo_response_children])
  note inst = list_only_children_not_trashed [OF ne demo_interp_children_text, of demo_state None]
  from inst have sent: "map fst (new_calls demo_state
               (snd (lister_fichiers demo_env (Some ''F1'') None demo_state)))
       = [FilesList ([CHR 0x27] @ ''F1'' @ [CHR 0x27] @ '' in parents and trashed=false'')]"
    by (rule conjunct1)
  from inst have "\<forall>it \<in> set (fst (lister_fichiers demo_env (Some ''F1'') None demo_state)).
      \<exists>r \<in> set (store demo_state).
        it = to_item r \<and> ''F1'' \<in> set (parents r) \<and> \<not> trashed r"
    by (rule conjunct2)
  from this mem have "\<exists>r \<in> set (store demo_state).
          to_item demo_bin = to_item r \<and> ''F1'' \<in> set (parents r) \<and> \<not> trashed r"
    by (rule bspec)
  with ne demo_interp_children_text sent mem show ?thesis by (intro conjI)
qed

text \<open>
  C5, as amended.  For a non-empty folder name that \<open>trouver_dossier_par_nom\<close> does not
  resolve (no match, or a failed lookup), \<open>lister_fichiers\<close> called with the name alone
  returns the empty list, prints that the folder was not found after whatever the lookup
  printed, and makes no further remote call.  The empty name is excluded: the guard
  \<open>if nom_dossier and not dossier_id\<close> treats it as no name at all, and the whole store
  is listed, as the counterexample shows.
\<close>

theorem list_unresolved_folder_name:
  assumes "nom_dossier \<noteq> []"
      and "\<not> truthy (fst (trouver_dossier_par_nom E nom_dossier s))"
  shows "lister_fichiers E None (Some nom_dossier) s
           = ([], (snd (trouver_dossier_par_nom E nom_dossier s))
                    \<lparr>log := log (snd (trouver_dossier_par_nom E nom_dossier s))
                              @ [FolderNotFound nom_dossier]\<rparr>)"
proof -
  obtain found s1 where tr: "trouver_dossier_par_nom E nom_dossier s = (found, s1)"
    by (cases "trouver_dossier_par_nom E nom_dossier s")
  with assms show ?thesis
    by (simp add: lister_fichiers_def try_except_def andthen_def total_def print_def ret_def)
qed

theorem list_unresolved_folder_name_witness:
  "''Missing'' \<noteq> []
   \<and> \<not> truthy (fst (trouver_dossier_par_nom demo_env ''Missing'' demo_state))
   \<and> fst (lister_fichiers demo_env None (Some ''Missing'') demo_state) = []
   \<and> new_log demo_state (snd (lister_fichiers demo_env None (Some ''Missing'') demo_state))
       = [FolderNotFound ''Missing'']"
proof -
  have ne: "''Missing'' \<noteq> []" by simp
  have tr: "trouver_dossier_par_nom demo_env ''Missing'' demo_state
      = (None, demo_state\<lparr>faults := tl (faults demo_state),
          calls := calls demo_state @ [(FilesList (folder_query ''Missing''), None)]\<rparr>)"
    using trouver_reliable [OF demo_reliable demo_response_missing] by simp
  then have nf: "\<not> truthy (fst (trouver_dossier_par_nom demo_env ''Missing'' demo_state))"
    by simp
  from list_unresolved_folder_name [OF ne nf] ne nf show ?thesis
    by (simp add: tr new_log_def)
qed

theorem list_empty_folder_name_counterexample:
  "fst (trouver_dossier_par_nom demo_env [] demo_state) = None
   \<and> fst (lister_fichiers demo_env None (Some []) demo_state)
       = [to_item demo_folder, to_item demo_doc, to_item demo_bin]"
proof -
  have "\<not> truthy (Some []) \<or> truthy None" by simp
  from lister_fichiers_reliable [OF demo_reliable _ this, of demo_env] demo_response_all
  have "fst (lister_fichiers demo_env None (Some []) demo_state)
          = [to_item demo_folder, to_item demo_doc, to_item demo_bin]" by simp
  then show ?thesis
    by (simp add: trouver_reliable [OF demo_reliable demo_response_empty_name])
qed

text \<open>
  C4.  For a record that is a Google document, spreadsheet, presentation or drawing,
  downloaded with no export type (\<open>None\<close> or the empty string) while the remote calls
  are answered: after the metadata, \<open>telecharger_fichier\<close> requests the export in the
  default type of the table for that kind (docx, xlsx, pptx, png).  The local name is the
  name supplied, or the record's name when none is supplied, followed by the extension of
  that type unless it already ends with it, letter case ignored; it carries the
  extension at its end in either case.  On success the exported content is stored under
  exactly that name.
\<close>

theorem download_default_export:
  assumes "reliable s" and "lookup (store s) fichier_id = Some r"
      and "(mimeType r, export_mime, ext) \<in> set
             [(''application/vnd.google-apps.document'',
                 ''application/vnd.openxmlformats-officedocument.wordprocessingml.document'',
                 ''.docx''),
              (''application/vnd.google-apps.spreadsheet'',
                 ''application/vnd.openxmlformats-officedocument.spreadsheetml.sheet'',
                 ''.xlsx''),
              (''application/vnd.google-apps.presentation'',
                 ''application/vnd.openxmlformats-officedocument.presentationml.presentation'',
                 ''.pptx''),
              (''application/vnd.google-apps.drawing'', ''image/png'', ''.png'')]"
      and "\<not> truthy format_export"
  shows "let result = telecharger_fichier E fichier_id nom_fichier_local format_export s;
             nom = or_else nom_fichier_local (file_name r);
             nom' = (if endswith (lower nom) ext then nom else nom @ ext)
         in map fst (new_calls s (snd result))
              = [FilesGet fichier_id, ExportMedia fichier_id export_mime]
            \<and> endswith (lower nom') ext
            \<and> (fst result \<longrightarrow>
                  (\<exists>data. export_as E r export_mime = Some data
                      \<and> fs (snd result) = (fs s)(nom' \<mapsto> data))
                  \<and> last (log (snd result)) = DocsExported nom')"
proof -
  note tab = default_export_table [OF assms(3)]
  from assms(4) have em: "or_else format_export export_mime = export_mime"
    by (cases format_export) auto
  have nom': "ajouter_extension nom export_mime
                = (if endswith (lower nom) ext then nom else nom @ ext)" for nom
    by (simp add: ajouter_extension_def tab)
  have ends: "endswith (lower (if endswith (lower nom) ext then nom else nom @ ext)) ext" for nom
    using endswith_append [of "lower nom" ext] by (simp add: lower_append tab)
  show ?thesis
    using ends
    by (cases "export_as E r export_mime")
       (simp_all add: telecharger_export_run [OF assms(1,2) tab(1)] em nom' Let_def new_calls_def)
qed

theorem download_default_export_witness:
  "reliable demo_state \<and> lookup (store demo_state) ''D1'' = Some demo_doc
   \<and> mimeType demo_doc = ''application/vnd.google-apps.document''
   \<and> \<not> truthy None
   \<and> fst (telecharger_fichier demo_env ''D1'' None None demo_state)
   \<and> map fst (new_calls demo_state (snd (telecharger_fichier demo_env ''D1'' None None demo_state)))
       = [FilesGet ''D1'',
          ExportMedia ''D1''
            ''application/vnd.openxmlformats-officedocument.wordprocessingml.document'']
   \<and> fs (snd (telecharger_fichier demo_env ''D1'' None None demo_state))
       = (fs demo_state)(''Plan.DOCX'' \<mapsto> ''exported:Plan.DOCX'')"
proof -
  have kind: "(mimeType demo_doc,
      ''application/vnd.openxmlformats-officedocument.wordprocessingml.document'', ''.docx'')
    \<in> set
     [(''application/vnd.google-apps.document'',
         ''application/vnd.openxmlformats-officedocument.wordprocessingml.document'', ''.docx''),
      (''application/vnd.google-apps.spreadsheet'',
         ''application/vnd.openxmlformats-officedocument.spreadsheetml.sheet'', ''.xlsx''),
      (''application/vnd.google-apps.presentation'',
         ''application/vnd.openxmlformats-officedocument.presentationml.presentation'', ''.pptx''),
      (''application/vnd.google-apps.drawing'', ''image/png'', ''.png'')]"
    by (simp add: demo_doc_fields)
  have none: "\<not> truthy None" by simp
  from download_default_export [OF demo_reliable lookup_demo_doc kind none, of demo_env None]
  show ?thesis
    by (simp add: Let_def demo_download_doc demo_doc_fields demo_plan_suffix demo_export_as
          demo_reliable lookup_demo_doc)
qed

text \<open>
  C9.  With the metadata call answered for a record of the store,
  \<open>obtenir_formats_export\<close> returns the fixed table of export types and labels of the
  record's kind when it is a Google document, spreadsheet, presentation or drawing, and
  the empty mapping for every other content type, in which case the only message
  printed says that no export is needed: it is not reported as a failure.
\<close>

theorem export_formats_by_kind:
  assumes "reliable s" and "lookup (store s) fichier_id = Some r"
  shows "(mimeType r = ''application/vnd.google-apps.document'' \<longrightarrow>
            fst (obtenir_formats_export E fichier_id s)
              = [(''application/vnd.openxmlformats-officedocument.wordprocessingml.document'',
                    ''.docx (Word)''),
                 (''application/pdf'', ''.pdf''),
                 (''text/plain'', ''.txt''),
                 (''application/rtf'', ''.rtf''),
                 (''application/vnd.oasis.opendocument.text'', ''.odt'')])
       \<and> (mimeType r = ''application/vnd.google-apps.spreadsheet'' \<longrightarrow>
            fst (obtenir_formats_export E fichier_id s)
              = [(''application/vnd.openxmlformats-officedocument.spreadsheetml.sheet'',
                    ''.xlsx (Excel)''),
                 (''application/pdf'', ''.pdf''),
                 (''text/csv'', ''.csv''),
                 (''application/vnd.oasis.opendocument.spreadsheet'', ''.ods'')])
       \<and> (mimeType r = ''application/vnd.google-apps.presentation'' \<longrightarrow>
            fst (obtenir_formats_export E fichier_id s)
              = [(''application/vnd.openxmlformats-officedocument.presentationml.presentation'',
                    ''.pptx (PowerPoint)''),
                 (''application/pdf'', ''.pdf''),
                 (''image/jpeg'', ''.jpg''),
                 (''image/png'', ''.png''),
                 (''application/vnd.oasis.opendocument.presentation'', ''.odp'')])
       \<and> (mimeType r = ''application/vnd.google-apps.drawing'' \<longrightarrow>
            fst (obtenir_formats_export E fichier_id s)
              = [(''image/png'', ''.png''),
                 (''image/jpeg'', ''.jpg''),
                 (''image/svg+xml'', ''.svg''),
                 (''application/pdf'', ''.pdf'')])
       \<and> (mimeType r \<notin> {''application/vnd.google-apps.document'',
                          ''application/vnd.google-apps.spreadsheet'',
                          ''application/vnd.google-apps.presentation'',
                          ''application/vnd.google-apps.drawing''} \<longrightarrow>
            fst (obtenir_formats_export E fichier_id s) = []
            \<and> new_log s (snd (obtenir_formats_export E fichier_id s))
                = [BinaryNoExport (mimeType r)])"
proof (intro conjI impI)
  assume "mimeType r = ''application/vnd.google-apps.document''"
  then show "fst (obtenir_formats_export E fichier_id s)
              = [(''application/vnd.openxmlformats-officedocument.wordprocessingml.document'',
                    ''.docx (Word)''),
                 (''application/pdf'', ''.pdf''),
                 (''text/plain'', ''.txt''),
                 (''application/rtf'', ''.rtf''),
                 (''application/vnd.oasis.opendocument.text'', ''.odt'')]"
    by (simp add: obtenir_run [OF assms] formats_disponibles_def)
next
  assume "mimeType r = ''application/vnd.google-apps.spreadsheet''"
  then show "fst (obtenir_formats_export E fichier_id s)
              = [(''application/vnd.openxmlformats-officedocument.spreadsheetml.sheet'',
                    ''.xlsx (Excel)''),
                 (''application/pdf'', ''.pdf''),
                 (''text/csv'', ''.csv''),
                 (''application/vnd.oasis.opendocument.spreadsheet'', ''.ods'')]"
    by (simp add: obtenir_run [OF assms] formats_disponibles_def)
next
  assume "mimeType r = ''application/vnd.google-apps.presentation''"
  then show "fst (obtenir_formats_export E fichier_id s)
              = [(''application/vnd.openxmlformats-officedocument.presentationml.presentation'',
                    ''.pptx (PowerPoint)''),
                 (''application/pdf'', ''.pdf''),
                 (''image/jpeg'', ''.jpg''),
                 (''image/png'', ''.png''),
                 (''application/vnd.oasis.opendocument.presentation'', ''.odp'')]"
    by (simp add: obtenir_run [OF assms] formats_disponibles_def)
next
  assume "mimeType r = ''application/vnd.google-apps.drawing''"
  then show "fst (obtenir_formats_export E fichier_id s)
              = [(''image/png'', ''.png''),
                 (''image/jpeg'', ''.jpg''),
                 (''image/svg+xml'', ''.svg''),
                 (''application/pdf'', ''.pdf'')]"
    by (simp add: obtenir_run [OF assms] formats_disponibles_def)
next
  assume other: "mimeType r \<notin> {''application/vnd.google-apps.document'',
                          ''application/vnd.google-apps.spreadsheet'',
                          ''application/vnd.google-apps.presentation'',
                          ''application/vnd.google-apps.drawing''}"
  then have none: "map_of formats_disponibles (mimeType r) = None"
    by (simp add: formats_disponibles_def)
  show "fst (obtenir_formats_export E fichier_id s) = []"
    by (simp add: obtenir_run [OF assms] none)
  show "new_log s (snd (obtenir_formats_export E fichier_id s)) = [BinaryNoExport (mimeType r)]"
    by (simp add: obtenir_run [OF assms] none new_log_def)
qed

theorem export_formats_by_kind_witness:
  "reliable demo_state \<and> lookup (store demo_state) ''B1'' = Some demo_bin
   \<and> mimeType demo_bin \<notin> {''application/vnd.google-apps.document'',
                          ''application/vnd.google-apps.spreadsheet'',
                          ''application/vnd.google-apps.presentation'',
                          ''application/vnd.google-apps.drawing''}
   \<and> fst (obtenir_formats_export demo_env ''B1'' demo_state) = []
   \<and> new_log demo_state (snd (obtenir_formats_export demo_env ''B1'' demo_state))
       = [BinaryNoExport ''application/octet-stream'']"
proof -
  have other: "mimeType demo_bin \<notin> {''application/vnd.google-apps.document'',
                          ''application/vnd.google-apps.spreadsheet'',
                          ''application/vnd.google-apps.presentation'',
                          ''application/vnd.google-apps.drawing''}"
    by (simp add: demo_bin_def)
  have mime: "mimeType demo_bin = ''application/octet-stream''" by (simp add: demo_bin_def)
  from export_formats_by_kind [OF demo_reliable lookup_demo_bin, of demo_env] other
  have "fst (obtenir_formats_export demo_env ''B1'' demo_state) = []
        \<and> new_log demo_state (snd (obtenir_formats_export demo_env ''B1'' demo_state))
            = [BinaryNoExport (mimeType demo_bin)]"
    by (elim conjE) (erule (1) mp)
  with other demo_reliable lookup_demo_bin mime show ?thesis by simp
qed

text \<open>
  C7.  Whenever a remote call made by \<open>telecharger_fichier\<close> fails (the metadata
  fetch, the export, or any chunk of the media download, the first one included), the
  result is \<open>False\<close> and the local files are exactly what they were before the call: no
  file has been created, emptied or overwritten, since the content is complete in memory
  before the local file is opened.
\<close>

theorem download_failure_leaves_no_file:
  assumes "(c, Some e)
             \<in> set (new_calls s
                      (snd (telecharger_fichier E fichier_id nom_fichier_local format_export s)))"
  shows "\<not> fst (telecharger_fichier E fichier_id nom_fichier_local format_export s)
         \<and> fs (snd (telecharger_fichier E fichier_id nom_fichier_local format_export s)) = fs s"
proof -
  from assms catches_telecharger [of E fichier_id nom_fichier_local format_export]
  have failed: "\<not> fst (telecharger_fichier E fichier_id nom_fichier_local format_export s)"
    unfolding catches_def by blast
  then have "fs (snd (telecharger_fichier E fichier_id nom_fichier_local format_export s)) = fs s"
    by (rule telecharger_untouched)
  with failed show ?thesis by simp
qed

theorem download_failure_leaves_no_file_witness:
  "(GetMedia ''B1'', Some (HttpError ''connection reset''))
      \<in> set (new_calls demo_flaky
               (snd (telecharger_fichier demo_env ''B1'' (Some ''copy.bin'') None demo_flaky)))
   \<and> \<not> fst (telecharger_fichier demo_env ''B1'' (Some ''copy.bin'') None demo_flaky)
   \<and> fs (snd (telecharger_fichier demo_env ''B1'' (Some ''copy.bin'') None demo_flaky))
       = fs demo_flaky
   \<and> fs demo_flaky ''copy.bin'' = None"
proof -
  have mem: "(GetMedia ''B1'', Some (HttpError ''connection reset''))
      \<in> set (new_calls demo_flaky
               (snd (telecharger_fichier demo_env ''B1'' (Some ''copy.bin'') None demo_flaky)))"
    by (simp add: demo_flaky_download new_calls_def) (simp add: demo_flaky_def demo_state_def)
  have absent: "fs demo_flaky ''copy.bin'' = None" by (simp add: demo_flaky_def demo_state_def)
  from download_failure_leaves_no_file [OF mem] mem absent show ?thesis by simp
qed

text \<open>
  C8.  Each of the six public operations catches its remote failures: whenever a remote
  call made during the operation fails with an exception \<open>e\<close>, the operation returns its
  failure indicator (\<open>[]\<close>, \<open>None\<close>, \<open>False\<close>, \<open>None\<close>, the empty mapping, \<open>None\<close>) and
  has printed an error message carrying \<open>str(e)\<close>.  The operations are total functions of
  the model: nothing is raised to the caller.  When the call that fails is the folder
  lookup inside \<open>lister_fichiers\<close> or \<open>uploader_fichier\<close>, the message is the one of
  \<open>trouver_dossier_par_nom\<close>.
\<close>

theorem remote_failures_are_caught:
  "catches [] {ListError, FindError} (lister_fichiers E dossier_id nom_dossier)
   \<and> catches None {FindError} (trouver_dossier_par_nom E nom)
   \<and> catches False {DownloadError}
         (telecharger_fichier E fichier_id nom_fichier_local format_export)
   \<and> catches None {UploadError, FindError}
         (uploader_fichier E chemin_fichier_local dossier_dest nom_dossier_dest)
   \<and> catches [] {FormatsError} (obtenir_formats_export E fichier_id')
   \<and> catches None {CreateError} (creer_dossier E nom_nouveau dossier_parent_id)"
  by (intro conjI catches_lister catches_trouver catches_telecharger catches_uploader
        catches_obtenir catches_creer)

theorem remote_failures_are_caught_witness:
  "(FilesList (parents_query ''F1''), Some (HttpError ''timed out''))
      \<in> set (new_calls demo_offline
               (snd (lister_fichiers demo_env (Some ''F1'') None demo_offline)))
   \<and> fst (lister_fichiers demo_env (Some ''F1'') None demo_offline) = []
   \<and> (\<exists>k \<in> {ListError, FindError}.
         k (str (HttpError ''timed out''))
           \<in> set (new_log demo_offline
                    (snd (lister_fichiers demo_env (Some ''F1'') None demo_offline))))"
proof -
  have mem: "(FilesList (parents_query ''F1''), Some (HttpError ''timed out''))
      \<in> set (new_calls demo_offline
               (snd (lister_fichiers demo_env (Some ''F1'') None demo_offline)))"
    by (simp add: demo_offline_list new_calls_def) (simp add: demo_offline_def demo_state_def)
  from remote_failures_are_caught [of demo_env "Some ''F1''" None]
  have "catches [] {ListError, FindError} (lister_fichiers demo_env (Some ''F1'') None)"
    by (rule conjunct1)
  with mem show ?thesis unfolding catches_def by blast
qed

text \<open>
  C1.  Suppose the serialization format reads back what it writes, no remote failure is
  scheduled, the two temporary locations can be written (and the second is not the empty
  path), the content type guessed for the uploaded file is not one of the four Google
  kinds, and the identifier the service assigns is not yet in the store.  Then
  \<open>uploader_report\<close> returns an identifier, and \<open>load_report\<close> on that identifier, in the
  state \<open>uploader_report\<close> leaves, returns the value that was saved.
\<close>

theorem report_round_trip:
  assumes "loads P (dumps P objet) = Some objet"
      and "reliable s"
      and "writable E (temp_path E nom_fichier)"
      and "map_of google_docs_types (guess_mime E (temp_path E nom_fichier)) = None"
      and "fresh_id E (store s) \<notin> file_id ` set (store s)"
      and "writable E (temp_path E (fresh_id E (store s)))"
      and "temp_path E (fresh_id E (store s)) \<noteq> []"
  shows "\<exists>file_id s1.
           uploader_report P E objet nom_fichier dossier_id s = (Inr (Some file_id), s1)
           \<and> fst (load_report P E file_id s1) = Inr objet"
proof -
  let ?tmp = "temp_path E nom_fichier"
  let ?i = "fresh_id E (store s)"
  let ?s0 = "s\<lparr>fs := (fs s)(?tmp \<mapsto> dumps P objet)\<rparr>"
  let ?r = "\<lparr>file_id = ?i, file_name = basename ?tmp, mimeType = guess_mime E ?tmp,
             parents = (case parents_of dossier_id of Some p \<Rightarrow> p | None \<Rightarrow> []),
             trashed = False, file_size = Some (length (dumps P objet)),
             createdTime = Some (now E), content = dumps P objet\<rparr>"
  from assms(2) have r0: "reliable ?s0" by simp
  have f0: "fs ?s0 ?tmp = Some (dumps P objet)" by simp
  from uploader_run [OF r0 f0, of E dossier_id] obtain s' where
    up: "uploader_fichier E ?tmp dossier_id None ?s0 = (Some ?i, s')"
    and st: "store s' = store s @ [?r]" and rel: "reliable s'"
    by auto
  let ?s1 = "s'\<lparr>fs := (fs s')(?tmp := None)\<rparr>"
  have save: "uploader_report P E objet nom_fichier dossier_id s = (Inr (Some ?i), ?s1)"
    using assms(3) up
    by (simp add: uploader_report_def andthen_def write_file_def total_def remove_file_def ret_def)
  from rel have rel1: "reliable ?s1" by simp
  from assms(5) have "lookup (store s @ [?r]) (file_id ?r) = Some ?r"
    by (intro lookup_fresh) simp
  with st have lk: "lookup (store ?s1) ?i = Some ?r" by simp
  have bin: "map_of google_docs_types (mimeType ?r) = None" using assms(4) by simp
  let ?tmp2 = "temp_path E ?i"
  from assms(7) have nm: "or_else (Some ?tmp2) (file_name ?r) = ?tmp2" by simp
  from assms(6) nm have wr: "writable E (or_else (Some ?tmp2) (file_name ?r))" by simp
  from telecharger_binary_run [OF rel1 lk bin wr, of None] nm obtain s2 where
    dl: "telecharger_fichier E ?i (Some ?tmp2) None ?s1 = (True, s2)"
    and f2: "fs s2 = (fs ?s1)(?tmp2 \<mapsto> dumps P objet)"
    by auto
  have "fst (load_report P E ?i ?s1) = Inr objet"
    using dl f2 assms(1)
    by (simp add: load_report_def andthen_def total_def read_file_def remove_file_def ret_def)
  with save show ?thesis by blast
qed

theorem report_round_trip_witness:
  "loads demo_pickle (dumps demo_pickle 3) = Some 3
   \<and> reliable demo_state
   \<and> writable demo_env (temp_path demo_env ''sauvegarde'')
   \<and> map_of google_docs_types (guess_mime demo_env (temp_path demo_env ''sauvegarde'')) = None
   \<and> fresh_id demo_env (store demo_state) \<notin> file_id ` set (store demo_state)
   \<and> writable demo_env (temp_path demo_env (fresh_id demo_env (store demo_state)))
   \<and> temp_path demo_env (fresh_id demo_env (store demo_state)) \<noteq> []
   \<and> (\<exists>file_id s1.
         uploader_report demo_pickle demo_env 3 ''sauvegarde'' (Some ''F1'') demo_state
           = (Inr (Some file_id), s1)
         \<and> fst (load_report demo_pickle demo_env file_id s1) = Inr 3)"
proof -
  have h3: "writable demo_env (temp_path demo_env ''sauvegarde'')"
    by (simp add: demo_writable demo_temp_path)
  have h4: "map_of google_docs_types (guess_mime demo_env (temp_path demo_env ''sauvegarde''))
              = None"
    by (simp add: demo_guess_mime google_docs_types_def)
  have h5: "fresh_id demo_env (store demo_state) \<notin> file_id ` set (store demo_state)"
    by (simp add: demo_fresh_id demo_ids)
  have h6: "writable demo_env (temp_path demo_env (fresh_id demo_env (store demo_state)))"
    by (simp add: demo_writable demo_temp_path)
  have h7: "temp_path demo_env (fresh_id demo_env (store demo_state)) \<noteq> []"
    by (simp add: demo_temp_path)
  from report_round_trip [OF demo_pickle_three demo_reliable h3 h4 h5 h6 h7, of "Some ''F1''"]
    demo_pickle_three demo_reliable h3 h4 h5 h6 h7
  show ?thesis by blast
qed

end
